theory Spec2Isabelle
  imports Complex_Main "HOL-Library.Multiset"
begin

section \<open>Data model\<close>

text \<open>
  The planner computes with Python floats and \<^verbatim>\<open>datetime\<close> values. Both are modelled
  by exact rationals: a duration is a number of minutes, an instant is a number of minutes
  since a fixed epoch, and \<^verbatim>\<open>dt + timedelta(minutes=x)\<close> is addition. Rounding of
  binary floating point is outside this model.
\<close>

type_synonym minutes = rat
type_synonym datetime = rat

text \<open>\<^verbatim>\<open>state.Location\<close>: a city plus optional address, name and coordinates.\<close>

record location =
  city :: string
  address :: "string option"
  loc_name :: "string option"
  lat :: "rat option"
  lon :: "rat option"

text \<open>Python exceptions that leave a modelled function.\<close>

datatype py_error = KeyError

text \<open>
  A value decoded from the value-judgment oracle's JSON: either something \<^verbatim>\<open>float()\<close>
  accepts (modelled by the number it yields) or something on which \<^verbatim>\<open>float()\<close> raises
  \<^verbatim>\<open>ValueError\<close> or \<^verbatim>\<open>TypeError\<close> (an unparsable string, null, a list).
\<close>

datatype pyval = Num rat | NonNumeric

text \<open>
  One entry of \<^verbatim>\<open>COMPANIES_DB[city]\<close> as \<^verbatim>\<open>company_manager.add_company\<close> writes it.
  Every key may be missing in a hand-edited data file, hence the options; the attributes
  that the scheduler never reads (id, industry, description) are left out.
\<close>

record entry =
  e_name :: "string option"
  e_address :: "string option"
  e_lat :: "rat option option"
  e_lon :: "rat option option"

text \<open>
  The candidate dictionary that travels through the scheduler. A key that is absent from the
  dictionary is \<open>None\<close>.
\<close>

record company =
  name :: string
  location :: location
  driving_time_min :: "minutes option"
  T_hub_to_i :: "minutes option"
  T_i_to_meeting :: "minutes option"
  T_total_trip :: "minutes option"
  T_buffer :: "minutes option"
  T_prev_to_i :: "minutes option"
  S_attract :: "pyval option"
  S_feas :: "pyval option"
  S_final :: "rat option"

text \<open>
  One object of the value-judgment oracle's answer, at the schema the prompt fixes
  (name, S\_attract, S\_feas, reasoning); each key may be missing and each score malformed.
\<close>

record scored_item =
  si_name :: "string option"
  si_S_attract :: "pyval option"
  si_S_feas :: "pyval option"
  si_reasoning :: "string option"

text \<open>An entry of the list \<^verbatim>\<open>plan_multi_company_visit\<close> returns.\<close>

record visit_item =
  vi_name :: string
  vi_start_time :: datetime
  vi_end_time :: datetime
  vi_location :: location

text \<open>\<^verbatim>\<open>state.ItineraryItem\<close>; the free-text description is left out.\<close>

datatype item_type = transport | company_visit

datatype details = Duration_min minutes | Company_name string

record itinerary_item =
  itype :: item_type
  start_time :: datetime
  end_time :: datetime
  item_location :: location
  item_details :: details

text \<open>
  One inter-city transit offer as the search providers return it. \<^verbatim>\<open>opt.get('id')\<close> and
  \<^verbatim>\<open>opt.get('type')\<close> are \<open>None\<close> when the key is missing.
\<close>

record offer =
  off_type :: "string option"
  off_id :: "string option"
  departure_time :: "string option"
  arrival_time :: "string option"
  departure_hub :: string
  arrival_hub :: string

text \<open>
  What the transit-choice chain hands back: a dictionary (read with \<^verbatim>\<open>.get('id')\<close> and
  \<^verbatim>\<open>.get('type')\<close>), a value that is not a dictionary, or an exception.
\<close>

datatype raw_output = RawDict "string option" "string option" | RawOther | RawRaised

text \<open>
  The fields of the \<^verbatim>\<open>selected_transport\<close> item that later nodes read: the arrival hub,
  the scheduled departure and arrival, and \<^verbatim>\<open>details['arrival_commute_min']\<close>.
\<close>

record transport_item =
  tr_start_time :: datetime
  tr_end_time :: datetime
  tr_location :: location
  arrival_commute_min :: minutes

text \<open>The messages a node writes to \<^verbatim>\<open>error_message\<close>, one constructor per message.\<close>

datatype message =
    NoTransportOptions
  | DepartureHubNotGeocoded
  | ArrivalHubNotGeocoded
  | NoValidChoice
  | NoTransportSelected

text \<open>
  \<^verbatim>\<open>state.TravelPlanState\<close>, restricted to the keys the modelled nodes read or write.
  A key that is absent from the state is \<open>None\<close>; so is \<^verbatim>\<open>selected_option_raw\<close> or
  \<^verbatim>\<open>selected_transport\<close> holding \<^verbatim>\<open>None\<close>, which \<^verbatim>\<open>state.get\<close> does
  not tell apart from an absent key.
\<close>

record travel_plan_state =
  flight_options :: "offer list option"
  train_options :: "offer list option"
  selected_option_raw :: "offer option"
  selected_transport :: "transport_item option"
  meeting_start_dt :: datetime
  home_location :: location
  meeting_location :: location
  error_message :: "message option"

section \<open>Configuration (config.py, api\_tools.py)\<close>

definition alpha :: rat where "alpha = 0.5"
definition beta :: rat where "beta = 0.3"
definition gamma :: rat where "gamma = 0.1"
definition delta :: rat where "delta = 0.05"

definition POST_ARRIVAL_BUFFER_MINUTES :: minutes where
  "POST_ARRIVAL_BUFFER_MINUTES = 30"

definition COMPANY_VISIT_DURATION_MINUTES :: minutes where
  "COMPANY_VISIT_DURATION_MINUTES = 45"

definition MAX_RETRIES :: nat where "MAX_RETRIES = 3"

definition INITIAL_WAIT_TIME :: rat where "INITIAL_WAIT_TIME = 1"

section \<open>The routing service and its client (api\_tools.py)\<close>

text \<open>
  What one HTTP request to the routing service comes back as, seen through the branches of
  \<^verbatim>\<open>get_amap_driving_time\<close>:
  \<^item> \<open>RouteFound m\<close>: status "1" with a path; \<open>m\<close> is the value of
    \<^verbatim>\<open>round(duration_seconds / 60.0, 1)\<close>;
  \<^item> \<open>LimitError\<close>: status "0" whose info mentions LIMIT or QUOTA;
  \<^item> \<open>ApiError\<close>: any other answer of the service;
  \<^item> \<open>NetworkError\<close>: \<^verbatim>\<open>requests.exceptions.RequestException\<close>;
  \<^item> \<open>Malformed\<close>: any other exception while reading the answer.
\<close>

datatype response = RouteFound minutes | LimitError | ApiError | NetworkError | Malformed

text \<open>
  The world outside the process: the configured key, the service (its answer to the
  \<open>k\<close>-th request of the run, for the endpoints asked), and two journals: how many
  requests were sent and which \<^verbatim>\<open>time.sleep\<close> calls were made, in order.
\<close>

record world =
  amap_api_key :: "string option"
  service :: "nat \<Rightarrow> location \<Rightarrow> location \<Rightarrow> response"
  requests :: nat
  slept :: "rat list"

text \<open>
  The other external collaborators, consulted at most a few times per run: the geocoder
  (address and city to coordinates), the transit-choice oracle, the value-judgment oracle
  and the waypoint directory \<^verbatim>\<open>COMPANIES_DB\<close>. Nothing is assumed about their answers.
\<close>

record oracles =
  amap_geocode :: "string \<Rightarrow> string \<Rightarrow> (rat \<times> rat) option"
  transit_chooser :: "offer list \<Rightarrow> minutes \<Rightarrow> minutes \<Rightarrow> raw_output"
  get_company_scores_by_llm :: "company list \<Rightarrow> rat \<Rightarrow> scored_item list"
  COMPANIES_DB :: "string \<Rightarrow> entry list option"

definition requests_get :: "location \<Rightarrow> location \<Rightarrow> world \<Rightarrow> response \<times> world" where
  "requests_get origin destination w =
     (service w (requests w) origin destination, w\<lparr>requests := Suc (requests w)\<rparr>)"

definition time_sleep :: "rat \<Rightarrow> world \<Rightarrow> world" where
  "time_sleep d w = w\<lparr>slept := slept w @ [d]\<rparr>"

text \<open>Python truthiness of an optional number: \<^verbatim>\<open>None\<close> and \<^verbatim>\<open>0.0\<close> are falsy.\<close>

definition truthy :: "rat option \<Rightarrow> bool" where
  "truthy v = (case v of None \<Rightarrow> False | Some x \<Rightarrow> x \<noteq> 0)"

definition key_configured :: "world \<Rightarrow> bool" where
  "key_configured w = (case amap_api_key w of None \<Rightarrow> False | Some k \<Rightarrow> k \<noteq> [])"

text \<open>The \<^verbatim>\<open>for attempt in range(MAX_RETRIES)\<close> loop, entered at \<open>attempt\<close>.\<close>

function retry_loop ::
  "location \<Rightarrow> location \<Rightarrow> nat \<Rightarrow> rat \<Rightarrow> world \<Rightarrow> minutes option \<times> world" where
  "retry_loop origin destination attempt wait_time w =
     (if attempt < MAX_RETRIES then
        (case requests_get origin destination w of (r, w1) \<Rightarrow>
           (case r of
              RouteFound m \<Rightarrow> (Some m, w1)
            | LimitError \<Rightarrow>
                (if attempt < MAX_RETRIES - 1
                 then retry_loop origin destination (Suc attempt) (wait_time * 2)
                        (time_sleep wait_time w1)
                 else (None, w1))
            | ApiError \<Rightarrow> (None, w1)
            | NetworkError \<Rightarrow>
                (if attempt < MAX_RETRIES - 1
                 then retry_loop origin destination (Suc attempt) (wait_time * 2)
                        (time_sleep wait_time w1)
                 else (None, w1))
            | Malformed \<Rightarrow> (None, w1)))
      else (None, w))"
  by pat_completeness auto
termination
  by (relation "measure (\<lambda>(origin, destination, attempt, wait_time, w). MAX_RETRIES - attempt)")
     auto

declare retry_loop.simps [simp del]

definition get_amap_driving_time ::
  "location \<Rightarrow> location \<Rightarrow> world \<Rightarrow> minutes option \<times> world" where
  "get_amap_driving_time origin destination w =
     (if \<not> key_configured w then (None, w)
      else if \<not> truthy (lat origin) \<or> \<not> truthy (lat destination) then (Some 35, w)
      else retry_loop origin destination 0 INITIAL_WAIT_TIME w)"

section \<open>Scoring and greedy sequencing (planning\_tools.py)\<close>

text \<open>
  \<^verbatim>\<open>calculate_final_score\<close> returns the score and the candidate dictionary as it leaves it.
  A missing key or a value \<^verbatim>\<open>float()\<close> rejects takes the \<^verbatim>\<open>except\<close> branch: \<open>-999\<close>
  is returned and the dictionary is not written.
\<close>

definition calculate_final_score :: "company \<Rightarrow> rat \<Rightarrow> rat \<times> company" where
  "calculate_final_score c t_available =
     (case S_attract c of
        Some (Num a) \<Rightarrow>
          (case S_feas c of
             Some (Num f) \<Rightarrow>
               (case T_total_trip c of
                  Some t \<Rightarrow>
                    (let tb = t_available - t - COMPANY_VISIT_DURATION_MINUTES;
                         score = alpha * a + beta * f - gamma * t + delta * tb
                     in (score, c\<lparr>S_final := Some score, T_buffer := Some tb\<rparr>))
                | None \<Rightarrow> (- 999, c))
           | _ \<Rightarrow> (- 999, c))
      | _ \<Rightarrow> (- 999, c))"

text \<open>
  The greedy pass of \<^verbatim>\<open>plan_multi_company_visit\<close> over the sorted candidates. The hop
  time of the first accepted candidate is its \<^verbatim>\<open>T_hub_to_i\<close>; for a later one it is its
  \<^verbatim>\<open>T_prev_to_i\<close> when that key holds a truthy value and its \<^verbatim>\<open>T_hub_to_i\<close>
  otherwise. The function takes no world: the source sends no routing request here.
\<close>

fun greedy ::
  "company list \<Rightarrow> visit_item list \<Rightarrow> datetime \<Rightarrow> rat \<Rightarrow> py_error + visit_item list" where
  "greedy [] final_itinerary current_time remaining_time = Inr final_itinerary"
| "greedy (c # cs) final_itinerary current_time remaining_time =
     (case (if final_itinerary = [] then T_hub_to_i c
            else if truthy (T_prev_to_i c) then T_prev_to_i c else T_hub_to_i c) of
        None \<Rightarrow> Inl KeyError
      | Some T_prev \<Rightarrow>
          (let time_needed = T_prev + COMPANY_VISIT_DURATION_MINUTES in
           if remaining_time \<ge> time_needed then
             (let travel_end_dt = current_time + T_prev;
                  visit_end_dt = travel_end_dt + COMPANY_VISIT_DURATION_MINUTES
              in greedy cs
                   (final_itinerary @
                      [\<lparr>vi_name = name c, vi_start_time = travel_end_dt,
                        vi_end_time = visit_end_dt, vi_location = location c\<rparr>])
                   visit_end_dt (remaining_time - time_needed))
           else Inr final_itinerary))"

text \<open>
  \<^verbatim>\<open>sorted(scored_companies, key=lambda x: x['S_final'], reverse=True)\<close>: Python's sort is
  stable, also with \<^verbatim>\<open>reverse=True\<close>, so candidates of equal score keep their input order;
  a candidate without the key raises \<^verbatim>\<open>KeyError\<close>.
\<close>

definition sorted_by_S_final :: "company list \<Rightarrow> py_error + company list" where
  "sorted_by_S_final cs =
     (if \<exists>c \<in> set cs. S_final c = None then Inl KeyError
      else Inr (sort_key (\<lambda>c. - the (S_final c)) cs))"

definition plan_multi_company_visit ::
  "company list \<Rightarrow> rat \<Rightarrow> datetime \<Rightarrow> py_error + visit_item list" where
  "plan_multi_company_visit scored_companies t_available_total hub_arrival_dt =
     (case sorted_by_S_final
             (map (\<lambda>c. snd (calculate_final_score c t_available_total)) scored_companies) of
        Inl e \<Rightarrow> Inl e
      | Inr sorted_companies \<Rightarrow>
          greedy sorted_companies [] hub_arrival_dt t_available_total)"

text \<open>
  \<^verbatim>\<open>filter_companies_by_area_by_time\<close>: the loop over the city's directory entries. An
  entry lacking address, name, lat or lon is skipped; so is one whose routing call fails.
  \<^verbatim>\<open>round(driving_time_min, 1)\<close> leaves the one-decimal value of the client unchanged.
\<close>

fun filter_loop ::
  "location \<Rightarrow> int \<Rightarrow> entry list \<Rightarrow> world \<Rightarrow> company list \<times> world" where
  "filter_loop center_location max_driving_minutes [] w = ([], w)"
| "filter_loop center_location max_driving_minutes (e # es) w =
     (case (e_address e, e_name e, e_lat e, e_lon e) of
        (Some a, Some n, Some la, Some lo) \<Rightarrow>
          (let company_loc = \<lparr>city = city center_location, address = Some a,
                               loc_name = Some n, lat = la, lon = lo\<rparr>
           in case get_amap_driving_time center_location company_loc w of
                (None, w1) \<Rightarrow> filter_loop center_location max_driving_minutes es w1
              | (Some d, w1) \<Rightarrow>
                  (if d \<le> of_int max_driving_minutes then
                     (case filter_loop center_location max_driving_minutes es w1 of
                        (rest, w2) \<Rightarrow>
                          (\<lparr>name = n, location = company_loc, driving_time_min = Some d,
                            T_hub_to_i = None, T_i_to_meeting = None, T_total_trip = None,
                            T_buffer = None, T_prev_to_i = None, S_attract = None,
                            S_feas = None, S_final = None\<rparr> # rest, w2))
                   else filter_loop center_location max_driving_minutes es w1))
      | _ \<Rightarrow> filter_loop center_location max_driving_minutes es w)"

definition filter_companies_by_area_by_time ::
  "oracles \<Rightarrow> location \<Rightarrow> int \<Rightarrow> world \<Rightarrow> company list \<times> world" where
  "filter_companies_by_area_by_time orc center_location max_driving_minutes w =
     (if city center_location = [] then ([], w)
      else filter_loop center_location max_driving_minutes
             (case COMPANIES_DB orc (city center_location) of None \<Rightarrow> [] | Some es \<Rightarrow> es) w)"

section \<open>Pre-meeting planning (nodes.py, pre\_meeting\_plan)\<close>

text \<open>Python's \<^verbatim>\<open>int()\<close> on a float truncates towards zero.\<close>

definition py_int :: "rat \<Rightarrow> int" where
  "py_int x = (if x \<ge> 0 then \<lfloor>x\<rfloor> else \<lceil>x\<rceil>)"

text \<open>
  Step 3b: both legs of every filtered candidate are asked of the routing client; a candidate
  with an unresolved leg is skipped, and one that fits the window gets its leg fields written
  and joins \<^verbatim>\<open>available_companies\<close>.
\<close>

fun eligibility_loop ::
  "location \<Rightarrow> location \<Rightarrow> rat \<Rightarrow> company list \<Rightarrow> world \<Rightarrow> company list \<times> world" where
  "eligibility_loop arrival_hub_loc meeting_loc available_minutes [] w = ([], w)"
| "eligibility_loop arrival_hub_loc meeting_loc available_minutes (c # cs) w =
     (case get_amap_driving_time arrival_hub_loc (location c) w of
        (hub_leg, w1) \<Rightarrow>
          (case get_amap_driving_time (location c) meeting_loc w1 of
             (meeting_leg, w2) \<Rightarrow>
               (case hub_leg of
                  None \<Rightarrow> eligibility_loop arrival_hub_loc meeting_loc available_minutes cs w2
                | Some h \<Rightarrow>
                    (case meeting_leg of
                       None \<Rightarrow>
                         eligibility_loop arrival_hub_loc meeting_loc available_minutes cs w2
                     | Some m \<Rightarrow>
                         (let time_needed_for_visit = h + COMPANY_VISIT_DURATION_MINUTES + m in
                          if time_needed_for_visit \<le> available_minutes then
                            (case eligibility_loop arrival_hub_loc meeting_loc
                                    available_minutes cs w2 of
                               (rest, w3) \<Rightarrow>
                                 (c\<lparr>T_hub_to_i := Some h, T_i_to_meeting := Some m,
                                    T_total_trip := Some (h + m),
                                    T_buffer := Some (available_minutes - time_needed_for_visit)\<rparr>
                                  # rest, w3))
                          else eligibility_loop arrival_hub_loc meeting_loc
                                 available_minutes cs w2)))))"

text \<open>
  \<^verbatim>\<open>{c['name']: c for c in available_companies}\<close>: of two candidates with one name the
  later one stays.
\<close>

definition original_companies_map :: "company list \<Rightarrow> string \<Rightarrow> company option" where
  "original_companies_map available_companies =
     map_of (rev (map (\<lambda>c. (name c, c)) available_companies))"

text \<open>
  Step 4b: the oracle's objects are matched back by name. \<^verbatim>\<open>merged_item.update\<close> lets the
  object's keys overwrite the candidate's. A missing \<^verbatim>\<open>name\<close>, \<^verbatim>\<open>S_attract\<close> or
  \<^verbatim>\<open>S_feas\<close> key raises \<^verbatim>\<open>KeyError\<close>, which the loop does not catch; a score that
  \<^verbatim>\<open>float()\<close> rejects is caught and the object skipped.
\<close>

fun merge_loop ::
  "(string \<Rightarrow> company option) \<Rightarrow> scored_item list \<Rightarrow> py_error + company list" where
  "merge_loop original [] = Inr []"
| "merge_loop original (scored # rest) =
     (case si_name scored of
        None \<Rightarrow> Inl KeyError
      | Some company_name \<Rightarrow>
          (case original company_name of
             None \<Rightarrow> merge_loop original rest
           | Some original_data \<Rightarrow>
               (let merged_item = original_data
                      \<lparr>name := company_name,
                       S_attract := (case si_S_attract scored of
                                       Some v \<Rightarrow> Some v | None \<Rightarrow> S_attract original_data),
                       S_feas := (case si_S_feas scored of
                                    Some v \<Rightarrow> Some v | None \<Rightarrow> S_feas original_data)\<rparr>
                in case S_attract merged_item of
                     None \<Rightarrow> Inl KeyError
                   | Some NonNumeric \<Rightarrow> merge_loop original rest
                   | Some (Num a) \<Rightarrow>
                       (case S_feas merged_item of
                          None \<Rightarrow> Inl KeyError
                        | Some NonNumeric \<Rightarrow> merge_loop original rest
                        | Some (Num f) \<Rightarrow>
                            (case merge_loop original rest of
                               Inl e \<Rightarrow> Inl e
                             | Inr merged \<Rightarrow> Inr (merged_item # merged))))))"

text \<open>
  Step 5a: one forward walk from \<open>current_loc\<close> at \<open>current_time\<close> over the visits still
  planned. Every hop is asked afresh of the routing client. \<open>None\<close> is the \<^verbatim>\<open>break\<close> with
  \<^verbatim>\<open>all_routes_planned = False\<close>; otherwise the segments built, the last location and
  the time the last visit ends are returned.
\<close>

fun forward_walk ::
  "visit_item list \<Rightarrow> location \<Rightarrow> datetime \<Rightarrow> itinerary_item list \<Rightarrow> world \<Rightarrow>
     (itinerary_item list \<times> location \<times> datetime) option \<times> world" where
  "forward_walk [] current_loc current_time current_route_items w =
     (Some (current_route_items, current_loc, current_time), w)"
| "forward_walk (visit # visits) current_loc current_time current_route_items w =
     (case get_amap_driving_time current_loc (vi_location visit) w of
        (None, w1) \<Rightarrow> (None, w1)
      | (Some T_prev, w1) \<Rightarrow>
          (let travel_end_dt = current_time + T_prev;
               visit_end_dt = travel_end_dt + COMPANY_VISIT_DURATION_MINUTES
           in forward_walk visits (vi_location visit) visit_end_dt
                (current_route_items @
                   [\<lparr>itype = transport, start_time = current_time, end_time = travel_end_dt,
                     item_location = vi_location visit, item_details = Duration_min T_prev\<rparr>,
                    \<lparr>itype = company_visit, start_time = travel_end_dt,
                     end_time = visit_end_dt, item_location = vi_location visit,
                     item_details = Company_name (vi_name visit)\<rparr>])
                w1))"

text \<open>
  Step 5: the truncate-and-retry loop. \<open>final_arrival_time\<close> is the variable of that name,
  which keeps its value across iterations; \<open>walks\<close> counts the iterations begun and is
  not part of the source's state.
\<close>

record repair_result =
  route :: "itinerary_item list"
  final_arrival_time :: "datetime option"
  walks :: nat

function repair_loop ::
  "visit_item list \<Rightarrow> location \<Rightarrow> datetime \<Rightarrow> datetime \<Rightarrow> location \<Rightarrow> datetime option \<Rightarrow>
     nat \<Rightarrow> world \<Rightarrow> repair_result \<times> world" where
  "repair_loop final_visit_plan_data arrival_hub_loc arrival_at_hub_dt latest_arrival_needed
     meeting_loc final_arrival n w =
     (if final_visit_plan_data = [] then
        (\<lparr>route = [], final_arrival_time = final_arrival, walks = n\<rparr>, w)
      else
        (case forward_walk final_visit_plan_data arrival_hub_loc arrival_at_hub_dt [] w of
           (None, w1) \<Rightarrow>
             repair_loop (butlast final_visit_plan_data) arrival_hub_loc arrival_at_hub_dt
               latest_arrival_needed meeting_loc final_arrival (Suc n) w1
         | (Some (current_route_items, current_loc, current_time), w1) \<Rightarrow>
             (case get_amap_driving_time current_loc meeting_loc w1 of
                (None, w2) \<Rightarrow>
                  repair_loop (butlast final_visit_plan_data) arrival_hub_loc arrival_at_hub_dt
                    latest_arrival_needed meeting_loc final_arrival (Suc n) w2
              | (Some final_commute_min, w2) \<Rightarrow>
                  (let arrival = current_time + final_commute_min in
                   if arrival \<le> latest_arrival_needed then
                     (\<lparr>route = current_route_items @
                         [\<lparr>itype = transport, start_time = current_time, end_time = arrival,
                           item_location = meeting_loc,
                           item_details = Duration_min final_commute_min\<rparr>],
                       final_arrival_time = Some arrival, walks = Suc n\<rparr>, w2)
                   else
                     repair_loop (butlast final_visit_plan_data) arrival_hub_loc
                       arrival_at_hub_dt latest_arrival_needed meeting_loc (Some arrival)
                       (Suc n) w2))))"
  by pat_completeness auto
termination
  by (relation "measure (\<lambda>(plan, hub, t0, latest, meeting, fa, n, w). length plan)") auto

declare repair_loop.simps [simp del]

text \<open>The update \<^verbatim>\<open>pre_meeting_plan\<close> returns; an early return leaves the arrival key out.\<close>

record pre_meeting_update =
  pre_meeting_route :: "itinerary_item list"
  final_arrival_at_venue :: "datetime option"
  update_error_message :: "message option"

definition latest_arrival_needed :: "travel_plan_state \<Rightarrow> datetime" where
  "latest_arrival_needed state = meeting_start_dt state - POST_ARRIVAL_BUFFER_MINUTES"

definition available_minutes :: "travel_plan_state \<Rightarrow> transport_item \<Rightarrow> rat" where
  "available_minutes state tr = latest_arrival_needed state - tr_end_time tr"

text \<open>Steps 3 and 3b: the geometric filter around the hub, then the eligibility test.\<close>

definition available_companies ::
  "oracles \<Rightarrow> travel_plan_state \<Rightarrow> transport_item \<Rightarrow> world \<Rightarrow> company list \<times> world" where
  "available_companies orc state tr w =
     (case filter_companies_by_area_by_time orc (tr_location tr)
             (py_int (arrival_commute_min tr * 2)) w of
        (first_filtered_companies, w1) \<Rightarrow>
          eligibility_loop (tr_location tr) (meeting_location state)
            (available_minutes state tr) first_filtered_companies w1)"

definition no_visits :: pre_meeting_update where
  "no_visits = \<lparr>pre_meeting_route = [], final_arrival_at_venue = None,
                 update_error_message = None\<rparr>"

definition pre_meeting_plan ::
  "oracles \<Rightarrow> travel_plan_state \<Rightarrow> world \<Rightarrow> py_error + pre_meeting_update \<times> world" where
  "pre_meeting_plan orc state w =
     (case selected_transport state of
        None \<Rightarrow>
          Inr (\<lparr>pre_meeting_route = [], final_arrival_at_venue = None,
                update_error_message = Some NoTransportSelected\<rparr>, w)
      | Some tr \<Rightarrow>
          (case available_companies orc state tr w of
             (pool, w2) \<Rightarrow>
               if pool = [] then Inr (no_visits, w2)
               else
                 (let scored = get_company_scores_by_llm orc pool (available_minutes state tr) in
                  if scored = [] then Inr (no_visits, w2)
                  else
                    (case merge_loop (original_companies_map pool) scored of
                       Inl e \<Rightarrow> Inl e
                     | Inr merged_companies_for_planning \<Rightarrow>
                         (case plan_multi_company_visit merged_companies_for_planning
                                 (available_minutes state tr) (tr_end_time tr) of
                            Inl e \<Rightarrow> Inl e
                          | Inr final_visit_plan_data \<Rightarrow>
                              if final_visit_plan_data = [] then Inr (no_visits, w2)
                              else
                                (case repair_loop final_visit_plan_data (tr_location tr)
                                        (tr_end_time tr) (latest_arrival_needed state)
                                        (meeting_location state) None 0 w2 of
                                   (r, w3) \<Rightarrow>
                                     Inr (\<lparr>pre_meeting_route = route r,
                                           final_arrival_at_venue =
                                             Some (case final_arrival_time r of
                                                     None \<Rightarrow> tr_end_time tr + arrival_commute_min tr
                                                   | Some t \<Rightarrow> t),
                                           update_error_message = None\<rparr>, w3)))))))"

section \<open>Transit selection (llm\_agent.py, nodes.py, graph.py)\<close>

text \<open>
  \<^verbatim>\<open>llm_choose_transport\<close> after the chain has answered: the identifier pair is looked up
  in the original offers, both \<^verbatim>\<open>id\<close> and \<^verbatim>\<open>type\<close> having to agree; the first match is
  returned, and \<^verbatim>\<open>None\<close> when there is none or the answer is no dictionary.
\<close>

definition llm_choose_transport :: "offer list \<Rightarrow> raw_output \<Rightarrow> offer option" where
  "llm_choose_transport transport_options raw =
     (case raw of
        RawDict selected_id selected_type \<Rightarrow>
          find (\<lambda>opt. off_id opt = selected_id \<and> off_type opt = selected_type) transport_options
      | RawOther \<Rightarrow> None
      | RawRaised \<Rightarrow> None)"

text \<open>\<^verbatim>\<open>{**loc, 'address': hub, 'name': hub, **coords}\<close> with \<open>coords = (lat, lon)\<close>.\<close>

definition hub_location :: "location \<Rightarrow> string \<Rightarrow> rat \<times> rat \<Rightarrow> location" where
  "hub_location loc hub coords =
     loc\<lparr>address := Some hub, loc_name := Some hub, lat := Some (fst coords),
         lon := Some (snd coords)\<rparr>"

text \<open>
  The node \<^verbatim>\<open>select_transport_by_llm\<close> in three parts. The offers are the flights
  followed by the trains, each key defaulting to the empty list.
\<close>

definition transport_options :: "travel_plan_state \<Rightarrow> offer list" where
  "transport_options state =
     (case flight_options state of None \<Rightarrow> [] | Some fs \<Rightarrow> fs) @
     (case train_options state of None \<Rightarrow> [] | Some ts \<Rightarrow> ts)"

text \<open>
  The reference commute figures, taken from the hubs of the first offer: both hubs are
  geocoded (a failure ends the node with a message), then home to departure hub and arrival
  hub to venue are asked of the routing client, 60 minutes standing in for a failed call.
\<close>

definition reference_commutes ::
  "oracles \<Rightarrow> travel_plan_state \<Rightarrow> offer \<Rightarrow> world \<Rightarrow> message + minutes \<times> minutes \<times> world" where
  "reference_commutes orc state ref_option w =
     (case amap_geocode orc (departure_hub ref_option) (city (home_location state)) of
        None \<Rightarrow> Inl DepartureHubNotGeocoded
      | Some ref_dep_coords \<Rightarrow>
          (case amap_geocode orc (arrival_hub ref_option) (city (meeting_location state)) of
             None \<Rightarrow> Inl ArrivalHubNotGeocoded
           | Some ref_arr_coords \<Rightarrow>
               (case get_amap_driving_time (home_location state)
                       (hub_location (home_location state) (departure_hub ref_option)
                          ref_dep_coords) w of
                  (home_commute, w1) \<Rightarrow>
                    (case get_amap_driving_time
                            (hub_location (meeting_location state) (arrival_hub ref_option)
                               ref_arr_coords)
                            (meeting_location state) w1 of
                       (arrival_commute, w2) \<Rightarrow>
                         Inr (case home_commute of None \<Rightarrow> 60 | Some t \<Rightarrow> t,
                              case arrival_commute of None \<Rightarrow> 60 | Some t \<Rightarrow> t, w2)))))"

text \<open>
  The node itself, with the returned update applied to the state as the graph runtime does:
  the keys of the update are overwritten, every other key stays. Every failing return
  writes \<^verbatim>\<open>error_message\<close> only.
\<close>

definition select_transport_by_llm ::
  "oracles \<Rightarrow> travel_plan_state \<Rightarrow> world \<Rightarrow> travel_plan_state \<times> world" where
  "select_transport_by_llm orc state w =
     (case transport_options state of
        [] \<Rightarrow> (state\<lparr>error_message := Some NoTransportOptions\<rparr>, w)
      | ref_option # _ \<Rightarrow>
          (case reference_commutes orc state ref_option w of
             Inl msg \<Rightarrow> (state\<lparr>error_message := Some msg\<rparr>, w)
           | Inr (home_commute_minutes, arrival_commute_minutes, w2) \<Rightarrow>
               (case llm_choose_transport (transport_options state)
                       (transit_chooser orc (transport_options state)
                          home_commute_minutes arrival_commute_minutes) of
                  None \<Rightarrow> (state\<lparr>error_message := Some NoValidChoice\<rparr>, w2)
                | Some selected_option_dict \<Rightarrow>
                    (if departure_time selected_option_dict = None
                     then (state\<lparr>error_message := Some NoValidChoice\<rparr>, w2)
                     else (state\<lparr>selected_option_raw := Some selected_option_dict,
                                  error_message := None\<rparr>, w2)))))"

text \<open>The conditional edge after the selection node (graph.py).\<close>

datatype node = N_calculate_final_transport | N_end

definition decide_after_llm_select :: "travel_plan_state \<Rightarrow> node" where
  "decide_after_llm_select state =
     (if selected_option_raw state \<noteq> None then N_calculate_final_transport else N_end)"

text \<open>
  The transit-choice oracle's answer names an offer that is not among the original ones:
  a dictionary whose id and type agree with no offer.
\<close>

definition names_no_offer :: "offer list \<Rightarrow> raw_output \<Rightarrow> bool" where
  "names_no_offer offers raw =
     (case raw of
        RawDict selected_id selected_type \<Rightarrow>
          \<not> (\<exists>opt \<in> set offers.
                 off_id opt = selected_id \<and> off_type opt = selected_type)
      | RawOther \<Rightarrow> False
      | RawRaised \<Rightarrow> False)"

section \<open>Shapes of a timed route\<close>

text \<open>
  Two predicates used to state what a forward walk builds. \<open>visit_pairs t xs t'\<close>: \<open>xs\<close>
  is a sequence of (transit, visit) pairs, the first transit starting at \<open>t\<close>, every segment
  starting when its predecessor ends, every visit lasting the fixed visit duration, and the
  last visit ending at \<open>t'\<close>. \<open>itinerary_shape t xs t'\<close>: such a sequence followed by one
  closing transit segment that ends at \<open>t'\<close>.
\<close>

fun visit_pairs :: "datetime \<Rightarrow> itinerary_item list \<Rightarrow> datetime \<Rightarrow> bool" where
  "visit_pairs t [] t' = (t = t')"
| "visit_pairs t [x] t' = False"
| "visit_pairs t (x # y # rest) t' =
     (itype x = transport \<and> start_time x = t \<and> itype y = company_visit \<and>
      start_time y = end_time x \<and>
      end_time y = start_time y + COMPANY_VISIT_DURATION_MINUTES \<and>
      visit_pairs (end_time y) rest t')"

fun itinerary_shape :: "datetime \<Rightarrow> itinerary_item list \<Rightarrow> datetime \<Rightarrow> bool" where
  "itinerary_shape t [] t' = False"
| "itinerary_shape t [x] t' = (itype x = transport \<and> start_time x = t \<and> end_time x = t')"
| "itinerary_shape t (x # y # rest) t' =
     (itype x = transport \<and> start_time x = t \<and> itype y = company_visit \<and>
      start_time y = end_time x \<and>
      end_time y = start_time y + COMPANY_VISIT_DURATION_MINUTES \<and>
      itinerary_shape (end_time y) rest t')"

section \<open>Example data\<close>

text \<open>Concrete places, a configured world and the three candidates of the end-to-end scenario.\<close>

definition place :: "string \<Rightarrow> rat \<Rightarrow> location" where
  "place n x = \<lparr>city = ''SZ'', address = Some n, loc_name = Some n, lat = Some x, lon = Some x\<rparr>"

definition candidate :: "string \<Rightarrow> rat \<Rightarrow> minutes \<Rightarrow> minutes \<Rightarrow> rat \<Rightarrow> rat \<Rightarrow> company" where
  "candidate n x hub_leg meeting_leg a f =
     \<lparr>name = n, location = place n x, driving_time_min = Some hub_leg,
      T_hub_to_i = Some hub_leg, T_i_to_meeting = Some meeting_leg,
      T_total_trip = Some (hub_leg + meeting_leg), T_buffer = None, T_prev_to_i = None,
      S_attract = Some (Num a), S_feas = Some (Num f), S_final = None\<rparr>"

definition company_A :: company where "company_A = candidate ''A'' 2 20 25 9 8"
definition company_B :: company where "company_B = candidate ''B'' 3 10 15 7 9"
definition company_C :: company where "company_C = candidate ''C'' 4 50 60 5 5"

text \<open>A service that is rate-limited on the first \<open>k\<close> requests and then finds routes of \<open>m\<close> minutes.\<close>

definition limited_world :: "nat \<Rightarrow> minutes \<Rightarrow> world" where
  "limited_world k m =
     \<lparr>amap_api_key = Some ''key'',
      service = (\<lambda>i origin destination. if i < k then LimitError else RouteFound m),
      requests = 0, slept = []\<rparr>"

text \<open>
  A directory of three entries in one city, an oracle set whose transit chooser names the
  train \<open>chosen\<close>, and a state after the transport has been fixed: arrival at the hub at
  minute 0, meeting at minute 210.
\<close>

definition directory_entry :: "string \<Rightarrow> rat \<Rightarrow> entry" where
  "directory_entry n x =
     \<lparr>e_name = Some n, e_address = Some n, e_lat = Some (Some x), e_lon = Some (Some x)\<rparr>"

definition score_of :: "string \<Rightarrow> rat \<Rightarrow> rat \<Rightarrow> scored_item" where
  "score_of n a f =
     \<lparr>si_name = Some n, si_S_attract = Some (Num a), si_S_feas = Some (Num f),
      si_reasoning = None\<rparr>"

definition train :: "string \<Rightarrow> offer" where
  "train i =
     \<lparr>off_type = Some ''Train'', off_id = Some i, departure_time = Some ''08:00'',
      arrival_time = Some ''12:00'', departure_hub = ''SH'', arrival_hub = ''hub''\<rparr>"

definition example_oracles :: "string \<Rightarrow> oracles" where
  "example_oracles chosen =
     \<lparr>amap_geocode = (\<lambda>a c. Some (1, 1)),
      transit_chooser = (\<lambda>offers h a. RawDict (Some chosen) (Some ''Train'')),
      get_company_scores_by_llm =
        (\<lambda>cs av. [score_of ''A'' 9 8, score_of ''B'' 7 9, score_of ''C'' 5 5]),
      COMPANIES_DB =
        (\<lambda>c. if c = ''SZ''
              then Some [directory_entry ''A'' 2, directory_entry ''B'' 3,
                         directory_entry ''C'' 4]
              else None)\<rparr>"

definition example_transport :: transport_item where
  "example_transport =
     \<lparr>tr_start_time = - 240, tr_end_time = 0, tr_location = place ''hub'' 1,
      arrival_commute_min = 20\<rparr>"

definition example_state :: travel_plan_state where
  "example_state =
     \<lparr>flight_options = None, train_options = Some [train ''G1'', train ''G2''],
      selected_option_raw = None, selected_transport = Some example_transport,
      meeting_start_dt = 210, home_location = place ''home'' 7,
      meeting_location = place ''venue'' 9, error_message = None\<rparr>"

definition planned_visit :: "company \<Rightarrow> datetime \<Rightarrow> visit_item" where
  "planned_visit c t =
     \<lparr>vi_name = name c, vi_start_time = t, vi_end_time = t + 45, vi_location = location c\<rparr>"

definition transit_segment :: "datetime \<Rightarrow> minutes \<Rightarrow> location \<Rightarrow> itinerary_item" where
  "transit_segment t d loc =
     \<lparr>itype = transport, start_time = t, end_time = t + d, item_location = loc,
      item_details = Duration_min d\<rparr>"

definition visit_segment :: "datetime \<Rightarrow> string \<Rightarrow> location \<Rightarrow> itinerary_item" where
  "visit_segment t n loc =
     \<lparr>itype = company_visit, start_time = t, end_time = t + 45, item_location = loc,
      item_details = Company_name n\<rparr>"

definition example_route :: "itinerary_item list" where
  "example_route =
     [transit_segment 0 20 (place ''A'' 2), visit_segment 20 ''A'' (place ''A'' 2),
      transit_segment 65 20 (place ''B'' 3), visit_segment 85 ''B'' (place ''B'' 3),
      transit_segment 130 20 (place ''venue'' 9)]"

definition example_update :: pre_meeting_update where
  "example_update =
     \<lparr>pre_meeting_route = example_route, final_arrival_at_venue = Some 150,
      update_error_message = None\<rparr>"

text \<open>The example pool, the merged candidates and the tentative plan they lead to.\<close>

definition pooled :: "string \<Rightarrow> rat \<Rightarrow> company" where
  "pooled n x =
     \<lparr>name = n, location = place n x, driving_time_min = Some 20, T_hub_to_i = Some 20,
      T_i_to_meeting = Some 20, T_total_trip = Some 40, T_buffer = Some 95,
      T_prev_to_i = None, S_attract = None, S_feas = None, S_final = None\<rparr>"

definition judged :: "string \<Rightarrow> rat \<Rightarrow> rat \<Rightarrow> rat \<Rightarrow> company" where
  "judged n x a f = (pooled n x)\<lparr>S_attract := Some (Num a), S_feas := Some (Num f)\<rparr>"

definition example_pool :: "company list" where
  "example_pool = [pooled ''A'' 2, pooled ''B'' 3, pooled ''C'' 4]"

definition example_merged :: "company list" where
  "example_merged = [judged ''A'' 2 9 8, judged ''B'' 3 7 9, judged ''C'' 4 5 5]"

definition example_plan :: "visit_item list" where
  "example_plan = [planned_visit (pooled ''A'' 2) 20, planned_visit (pooled ''B'' 3) 85]"

text \<open>
  The same oracles, except that the value-judgment object for B comes without its
  \<^verbatim>\<open>S_feas\<close> key.
\<close>

definition incomplete_scores :: "scored_item list" where
  "incomplete_scores =
     [score_of ''A'' 9 8, (score_of ''B'' 7 9)\<lparr>si_S_feas := None\<rparr>, score_of ''C'' 5 5]"

definition incomplete_oracles :: oracles where
  "incomplete_oracles =
     (example_oracles ''G1'')\<lparr>get_company_scores_by_llm := (\<lambda>cs av. incomplete_scores)\<rparr>"

text \<open>A fourth candidate with the legs and judgments of \<open>company_A\<close> under another name.\<close>

definition company_D :: company where "company_D = candidate ''D'' 5 20 25 9 8"

lemmas world_eval = get_amap_driving_time_def requests_get_def time_sleep_def
  key_configured_def truthy_def limited_world_def place_def INITIAL_WAIT_TIME_def

lemmas example_eval = example_oracles_def example_state_def example_transport_def
  directory_entry_def score_of_def train_def example_update_def example_route_def
  transit_segment_def visit_segment_def planned_visit_def company_A_def company_B_def
  company_C_def company_D_def candidate_def pooled_def judged_def example_pool_def
  example_merged_def example_plan_def incomplete_scores_def incomplete_oracles_def
  COMPANY_VISIT_DURATION_MINUTES_def POST_ARRIVAL_BUFFER_MINUTES_def

section \<open>The routing client retries a bounded number of times\<close>

lemma retry_loop_0:
  "retry_loop origin destination 0 wt w =
     (case requests_get origin destination w of (r, w1) \<Rightarrow>
        (case r of RouteFound m \<Rightarrow> (Some m, w1)
         | LimitError \<Rightarrow> retry_loop origin destination (Suc 0) (wt * 2) (time_sleep wt w1)
         | ApiError \<Rightarrow> (None, w1)
         | NetworkError \<Rightarrow> retry_loop origin destination (Suc 0) (wt * 2) (time_sleep wt w1)
         | Malformed \<Rightarrow> (None, w1)))"
  by (subst retry_loop.simps) (simp add: MAX_RETRIES_def split: prod.splits response.splits)

lemma retry_loop_1:
  "retry_loop origin destination (Suc 0) wt w =
     (case requests_get origin destination w of (r, w1) \<Rightarrow>
        (case r of RouteFound m \<Rightarrow> (Some m, w1)
         | LimitError \<Rightarrow>
             retry_loop origin destination (Suc (Suc 0)) (wt * 2) (time_sleep wt w1)
         | ApiError \<Rightarrow> (None, w1)
         | NetworkError \<Rightarrow>
             retry_loop origin destination (Suc (Suc 0)) (wt * 2) (time_sleep wt w1)
         | Malformed \<Rightarrow> (None, w1)))"
  by (subst retry_loop.simps) (simp add: MAX_RETRIES_def split: prod.splits response.splits)

lemma retry_loop_2:
  "retry_loop origin destination (Suc (Suc 0)) wt w =
     (case requests_get origin destination w of (r, w1) \<Rightarrow>
        (case r of RouteFound m \<Rightarrow> (Some m, w1) | _ \<Rightarrow> (None, w1)))"
  by (subst retry_loop.simps) (simp add: MAX_RETRIES_def split: prod.splits response.splits)

lemmas retry_unfold = retry_loop_0 retry_loop_1 retry_loop_2

lemma get_amap_driving_time_resolved:
  "key_configured w \<Longrightarrow> truthy (lat origin) \<Longrightarrow> truthy (lat destination) \<Longrightarrow>
   get_amap_driving_time origin destination w = retry_loop origin destination 0 1 w"
  by (simp add: get_amap_driving_time_def INITIAL_WAIT_TIME_def)

lemma retry_loop_requests_le:
  "requests (snd (retry_loop origin destination 0 wt w)) \<le> requests w + 3"
  by (simp add: retry_unfold requests_get_def time_sleep_def split: response.split)

lemma retry_two_limits_then_route:
  "service w (requests w) origin destination = LimitError \<Longrightarrow>
   service w (Suc (requests w)) origin destination = LimitError \<Longrightarrow>
   service w (Suc (Suc (requests w))) origin destination = RouteFound m \<Longrightarrow>
   retry_loop origin destination 0 1 w =
     (Some m, w\<lparr>requests := requests w + 3, slept := slept w @ [1, 2]\<rparr>)"
  by (simp add: retry_unfold requests_get_def time_sleep_def)

lemma retry_three_limits:
  "service w (requests w) origin destination = LimitError \<Longrightarrow>
   service w (Suc (requests w)) origin destination = LimitError \<Longrightarrow>
   service w (Suc (Suc (requests w))) origin destination = LimitError \<Longrightarrow>
   retry_loop origin destination 0 1 w =
     (None, w\<lparr>requests := requests w + 3, slept := slept w @ [1, 2]\<rparr>)"
  by (simp add: retry_unfold requests_get_def time_sleep_def)

lemma retry_other_error:
  "service w (requests w) origin destination = ApiError \<Longrightarrow>
   retry_loop origin destination 0 1 w = (None, w\<lparr>requests := requests w + 1\<rparr>)"
  by (simp add: retry_unfold requests_get_def time_sleep_def)

lemma retry_other_error_second:
  "service w (requests w) origin destination = LimitError \<Longrightarrow>
   service w (Suc (requests w)) origin destination = ApiError \<Longrightarrow>
   retry_loop origin destination 0 1 w =
     (None, w\<lparr>requests := requests w + 2, slept := slept w @ [1]\<rparr>)"
  by (simp add: retry_unfold requests_get_def time_sleep_def)

lemma retry_other_error_third:
  "service w (requests w) origin destination = LimitError \<Longrightarrow>
   service w (Suc (requests w)) origin destination = LimitError \<Longrightarrow>
   service w (Suc (Suc (requests w))) origin destination = ApiError \<Longrightarrow>
   retry_loop origin destination 0 1 w =
     (None, w\<lparr>requests := requests w + 3, slept := slept w @ [1, 2]\<rparr>)"
  by (simp add: retry_unfold requests_get_def time_sleep_def)

text \<open>
  Claim C3. With the key configured and both latitudes resolved, one call of
  \<^verbatim>\<open>get_amap_driving_time\<close> sends at most three requests. Two rate-limit answers followed
  by a route give that route after three requests and exactly the sleeps of 1s then 2s;
  three rate-limit answers give \<^verbatim>\<open>None\<close> after three requests and the same two sleeps, with
  no fourth request; any other error reported by the service gives \<^verbatim>\<open>None\<close> at once:
  after that single request and no sleep when it answers the first request, and with no
  request after it when it answers the second or the third.
\<close>

theorem get_amap_driving_time_retry_bound:
  assumes "key_configured w" and "truthy (lat origin)" and "truthy (lat destination)"
  shows "requests (snd (get_amap_driving_time origin destination w)) \<le> requests w + 3 \<and>
         (service w (requests w) origin destination = LimitError \<and>
          service w (Suc (requests w)) origin destination = LimitError \<and>
          service w (Suc (Suc (requests w))) origin destination = RouteFound m \<longrightarrow>
            get_amap_driving_time origin destination w =
              (Some m, w\<lparr>requests := requests w + 3, slept := slept w @ [1, 2]\<rparr>)) \<and>
         (service w (requests w) origin destination = LimitError \<and>
          service w (Suc (requests w)) origin destination = LimitError \<and>
          service w (Suc (Suc (requests w))) origin destination = LimitError \<longrightarrow>
            get_amap_driving_time origin destination w =
              (None, w\<lparr>requests := requests w + 3, slept := slept w @ [1, 2]\<rparr>)) \<and>
         (service w (requests w) origin destination = ApiError \<longrightarrow>
            get_amap_driving_time origin destination w =
              (None, w\<lparr>requests := requests w + 1\<rparr>)) \<and>
         (service w (requests w) origin destination = LimitError \<and>
          service w (Suc (requests w)) origin destination = ApiError \<longrightarrow>
            get_amap_driving_time origin destination w =
              (None, w\<lparr>requests := requests w + 2, slept := slept w @ [1]\<rparr>)) \<and>
         (service w (requests w) origin destination = LimitError \<and>
          service w (Suc (requests w)) origin destination = LimitError \<and>
          service w (Suc (Suc (requests w))) origin destination = ApiError \<longrightarrow>
            get_amap_driving_time origin destination w =
              (None, w\<lparr>requests := requests w + 3, slept := slept w @ [1, 2]\<rparr>))"
proof -
  have eq: "get_amap_driving_time origin destination w = retry_loop origin destination 0 1 w"
    using assms by (rule get_amap_driving_time_resolved)
  show ?thesis
    unfolding eq
    using retry_loop_requests_le retry_two_limits_then_route retry_three_limits
      retry_other_error retry_other_error_second retry_other_error_third
    by blast
qed

theorem get_amap_driving_time_retry_bound_witness:
  "key_configured (limited_world 2 12) \<and> truthy (lat (place ''hub'' 1)) \<and>
   truthy (lat (place ''A'' 2)) \<and>
   get_amap_driving_time (place ''hub'' 1) (place ''A'' 2) (limited_world 2 12) =
     (Some 12, (limited_world 2 12)\<lparr>requests := 3, slept := [1, 2]\<rparr>)"
  using get_amap_driving_time_retry_bound
          [of "limited_world 2 12" "place ''hub'' 1" "place ''A'' 2" 12]
  by (simp add: limited_world_def place_def key_configured_def truthy_def)

section \<open>The composite score\<close>

text \<open>
  Claim C4. For a candidate whose \<^verbatim>\<open>S_attract\<close>, \<^verbatim>\<open>S_feas\<close> and \<^verbatim>\<open>T_total_trip\<close>
  are numbers, \<^verbatim>\<open>calculate_final_score\<close> returns
  \<open>0.5 * S_attract + 0.3 * S_feas - 0.1 * T_total_trip + 0.05 * (t_available - T_total_trip - 45)\<close>,
  a function of these four numbers only; with \<open>t_available = 180\<close> the inputs
  \<open>(9, 8, 45)\<close>, \<open>(7, 9, 25)\<close> and \<open>(5, 5, 110)\<close> score \<open>6.9\<close>, \<open>9.2\<close> and \<open>-5.75\<close>.
\<close>

theorem calculate_final_score_formula:
  assumes "S_attract c = Some (Num a)" and "S_feas c = Some (Num f)"
    and "T_total_trip c = Some t"
  shows "fst (calculate_final_score c t_available) =
           0.5 * a + 0.3 * f - 0.1 * t + 0.05 * (t_available - t - 45) \<and>
         (t_available = 180 \<and> a = 9 \<and> f = 8 \<and> t = 45 \<longrightarrow>
            fst (calculate_final_score c t_available) = 6.9) \<and>
         (t_available = 180 \<and> a = 7 \<and> f = 9 \<and> t = 25 \<longrightarrow>
            fst (calculate_final_score c t_available) = 9.2) \<and>
         (t_available = 180 \<and> a = 5 \<and> f = 5 \<and> t = 110 \<longrightarrow>
            fst (calculate_final_score c t_available) = - 5.75)"
  using assms
  by (simp add: calculate_final_score_def alpha_def beta_def gamma_def delta_def
        COMPANY_VISIT_DURATION_MINUTES_def Let_def)

theorem calculate_final_score_formula_witness:
  "S_attract company_A = Some (Num 9) \<and> S_feas company_A = Some (Num 8) \<and>
   T_total_trip company_A = Some 45 \<and>
   fst (calculate_final_score company_A 180) = 6.9"
  using calculate_final_score_formula [of company_A 9 8 45 180]
  by (simp add: company_A_def candidate_def)

section \<open>The feasibility-repair loop\<close>

lemma visit_pairs_append:
  "visit_pairs t xs t1 \<Longrightarrow> visit_pairs t1 ys t2 \<Longrightarrow> visit_pairs t (xs @ ys) t2"
  by (induction t xs t1 rule: visit_pairs.induct) auto

lemma visit_pairs_shape:
  "visit_pairs t xs t1 \<Longrightarrow> itype x = transport \<Longrightarrow> start_time x = t1 \<Longrightarrow> end_time x = t2 \<Longrightarrow>
   itinerary_shape t (xs @ [x]) t2"
  by (induction t xs t1 rule: visit_pairs.induct) auto

lemma forward_walk_segments:
  "forward_walk visits loc t items w = (Some (items', loc', t'), w') \<Longrightarrow>
   \<exists>segs. items' = items @ segs \<and> visit_pairs t segs t' \<and>
          length segs = 2 * length visits \<and>
          (\<forall>x \<in> set segs. \<exists>v \<in> set visits.
              item_location x = vi_location v \<and>
              (itype x = company_visit \<longrightarrow> item_details x = Company_name (vi_name v)))"
proof (induction visits arbitrary: loc t items w)
  case Nil
  then show ?case by simp
next
  case (Cons v vs)
  from Cons.prems obtain d w1 where
    d: "get_amap_driving_time loc (vi_location v) w = (Some d, w1)"
    by (auto split: prod.splits option.splits)
  let ?a = "\<lparr>itype = transport, start_time = t, end_time = t + d,
              item_location = vi_location v, item_details = Duration_min d\<rparr>"
  let ?b = "\<lparr>itype = company_visit, start_time = t + d,
              end_time = t + d + COMPANY_VISIT_DURATION_MINUTES,
              item_location = vi_location v, item_details = Company_name (vi_name v)\<rparr>"
  from Cons.prems d have
    "forward_walk vs (vi_location v) (t + d + COMPANY_VISIT_DURATION_MINUTES)
       (items @ [?a, ?b]) w1 = (Some (items', loc', t'), w')"
    by (simp add: Let_def)
  from Cons.IH [OF this] obtain segs where
    segs: "items' = (items @ [?a, ?b]) @ segs"
      "visit_pairs (t + d + COMPANY_VISIT_DURATION_MINUTES) segs t'"
      "length segs = 2 * length vs"
      "\<forall>x \<in> set segs. \<exists>v \<in> set vs.
          item_location x = vi_location v \<and>
          (itype x = company_visit \<longrightarrow> item_details x = Company_name (vi_name v))"
    by blast
  have "items' = items @ (?a # ?b # segs)" using segs(1) by simp
  moreover have "visit_pairs t (?a # ?b # segs) t'" using segs(2) by simp
  moreover have "length (?a # ?b # segs) = 2 * length (v # vs)" using segs(3) by simp
  moreover have "\<forall>x \<in> set (?a # ?b # segs). \<exists>u \<in> set (v # vs).
          item_location x = vi_location u \<and>
          (itype x = company_visit \<longrightarrow> item_details x = Company_name (vi_name u))"
    using segs(4) by auto
  ultimately show ?case by blast
qed

lemma itinerary_shape_elementary:
  "itinerary_shape t xs t' \<Longrightarrow>
   xs \<noteq> [] \<and> odd (length xs) \<and> start_time (hd xs) = t \<and> itype (hd xs) = transport \<and>
   end_time (last xs) = t' \<and> itype (last xs) = transport \<and>
   (\<forall>i < length xs. (even i \<longrightarrow> itype (xs ! i) = transport) \<and>
       (odd i \<longrightarrow> itype (xs ! i) = company_visit \<and>
          end_time (xs ! i) = start_time (xs ! i) + COMPANY_VISIT_DURATION_MINUTES)) \<and>
   (\<forall>i. Suc i < length xs \<longrightarrow> start_time (xs ! Suc i) = end_time (xs ! i))"
proof (induction t xs t' rule: itinerary_shape.induct)
  case (1 t t')
  then show ?case by simp
next
  case (2 t x t')
  then show ?case by simp
next
  case (3 t x y rest t')
  then have IH: "rest \<noteq> []" "odd (length rest)" "start_time (hd rest) = end_time y"
    "end_time (last rest) = t'" "itype (last rest) = transport"
    "\<forall>i < length rest. (even i \<longrightarrow> itype (rest ! i) = transport) \<and>
       (odd i \<longrightarrow> itype (rest ! i) = company_visit \<and>
          end_time (rest ! i) = start_time (rest ! i) + COMPANY_VISIT_DURATION_MINUTES)"
    "\<forall>i. Suc i < length rest \<longrightarrow> start_time (rest ! Suc i) = end_time (rest ! i)"
    by auto
  from "3.prems" have hd: "itype x = transport" "start_time x = t" "itype y = company_visit"
    "start_time y = end_time x" "end_time y = start_time y + COMPANY_VISIT_DURATION_MINUTES"
    by auto
  have types: "\<forall>i < length (x # y # rest).
       (even i \<longrightarrow> itype ((x # y # rest) ! i) = transport) \<and>
       (odd i \<longrightarrow> itype ((x # y # rest) ! i) = company_visit \<and>
          end_time ((x # y # rest) ! i) =
            start_time ((x # y # rest) ! i) + COMPANY_VISIT_DURATION_MINUTES)"
  proof (intro allI impI)
    fix i assume "i < length (x # y # rest)"
    then consider "i = 0" | "i = 1" | j where "i = Suc (Suc j)" "j < length rest"
      by (cases i; simp; rename_tac k; case_tac k; simp)
    then show "(even i \<longrightarrow> itype ((x # y # rest) ! i) = transport) \<and>
       (odd i \<longrightarrow> itype ((x # y # rest) ! i) = company_visit \<and>
          end_time ((x # y # rest) ! i) =
            start_time ((x # y # rest) ! i) + COMPANY_VISIT_DURATION_MINUTES)"
      using hd IH(6) by cases auto
  qed
  have chain: "\<forall>i. Suc i < length (x # y # rest) \<longrightarrow>
       start_time ((x # y # rest) ! Suc i) = end_time ((x # y # rest) ! i)"
  proof (intro allI impI)
    fix i assume "Suc i < length (x # y # rest)"
    then consider "i = 0" | "i = 1" | j where "i = Suc (Suc j)" "Suc j < length rest"
      by (cases i; simp; rename_tac k; case_tac k; simp)
    then show "start_time ((x # y # rest) ! Suc i) = end_time ((x # y # rest) ! i)"
      using hd IH(1,3,7) by cases (auto simp: hd_conv_nth)
  qed
  show ?case using hd IH(1,2,4,5) types chain by simp
qed


lemma repair_loop_Nil:
  "repair_loop [] hub t0 latest meeting fa n w =
     (\<lparr>route = [], final_arrival_time = fa, walks = n\<rparr>, w)"
  by (simp add: repair_loop.simps)

lemma repair_loop_accept_or_shrink:
  assumes "plan \<noteq> []"
  shows "(\<exists>items loc t w1 d w2.
            forward_walk plan hub t0 [] w = (Some (items, loc, t), w1) \<and>
            get_amap_driving_time loc meeting w1 = (Some d, w2) \<and> t + d \<le> latest \<and>
            repair_loop plan hub t0 latest meeting fa n w =
              (\<lparr>route = items @
                   [\<lparr>itype = transport, start_time = t, end_time = t + d,
                     item_location = meeting, item_details = Duration_min d\<rparr>],
                 final_arrival_time = Some (t + d), walks = Suc n\<rparr>, w2)) \<or>
         (\<exists>fa' w'. repair_loop plan hub t0 latest meeting fa n w =
            repair_loop (butlast plan) hub t0 latest meeting fa' (Suc n) w')"
  using assms
  by (subst (1 2) repair_loop.simps)
     (auto split: prod.splits option.splits simp: Let_def)

lemma repair_loop_route:
  assumes "route (fst (repair_loop plan hub t0 latest meeting fa n w)) \<noteq> []"
  shows "\<exists>t. final_arrival_time (fst (repair_loop plan hub t0 latest meeting fa n w)) = Some t \<and>
            t \<le> latest \<and>
            itinerary_shape t0 (route (fst (repair_loop plan hub t0 latest meeting fa n w))) t \<and>
            3 \<le> length (route (fst (repair_loop plan hub t0 latest meeting fa n w))) \<and>
            (\<forall>x \<in> set (route (fst (repair_loop plan hub t0 latest meeting fa n w))).
               itype x = company_visit \<longrightarrow>
               (\<exists>v \<in> set plan. item_location x = vi_location v \<and>
                   item_details x = Company_name (vi_name v)))"
  using assms
proof (induction "length plan" arbitrary: plan fa n w)
  case 0
  then show ?case by (simp add: repair_loop_Nil)
next
  case (Suc k)
  then have ne: "plan \<noteq> []" and len: "k = length (butlast plan)" by auto
  from repair_loop_accept_or_shrink [OF ne, of hub t0 w meeting latest fa n]
  show ?case
  proof (elim disjE exE conjE)
    fix items loc t w1 d w2
    assume fw: "forward_walk plan hub t0 [] w = (Some (items, loc, t), w1)"
      and le: "t + d \<le> latest"
      and eq: "repair_loop plan hub t0 latest meeting fa n w =
              (\<lparr>route = items @
                   [\<lparr>itype = transport, start_time = t, end_time = t + d,
                     item_location = meeting, item_details = Duration_min d\<rparr>],
                 final_arrival_time = Some (t + d), walks = Suc n\<rparr>, w2)"
    from forward_walk_segments [OF fw] have
      segs: "visit_pairs t0 items t" "length items = 2 * length plan"
        "\<forall>x \<in> set items. \<exists>v \<in> set plan.
              item_location x = vi_location v \<and>
              (itype x = company_visit \<longrightarrow> item_details x = Company_name (vi_name v))"
      by auto
    have shape: "itinerary_shape t0 (items @
                   [\<lparr>itype = transport, start_time = t, end_time = t + d,
                     item_location = meeting, item_details = Duration_min d\<rparr>]) (t + d)"
      by (rule visit_pairs_shape [OF segs(1)]) simp_all
    have "Suc 0 \<le> length plan" using ne by (cases plan) simp_all
    then have three: "3 \<le> length (items @
                   [\<lparr>itype = transport, start_time = t, end_time = t + d,
                     item_location = meeting, item_details = Duration_min d\<rparr>])"
      using segs(2) by simp
    show ?thesis
      unfolding eq using le shape three segs(3) by auto
  next
    fix fa' w'
    assume eq: "repair_loop plan hub t0 latest meeting fa n w =
            repair_loop (butlast plan) hub t0 latest meeting fa' (Suc n) w'"
    have "route (fst (repair_loop (butlast plan) hub t0 latest meeting fa' (Suc n) w')) \<noteq> []"
      using Suc.prems eq by simp
    from Suc.hyps(1) [OF len this] show ?thesis
      unfolding eq by (meson in_set_butlastD)
  qed
qed

lemma repair_loop_walks_le:
  "walks (fst (repair_loop plan hub t0 latest meeting fa n w)) \<le> n + length plan"
proof (induction "length plan" arbitrary: plan fa n w)
  case 0
  then show ?case by (simp add: repair_loop_Nil)
next
  case (Suc k)
  then have ne: "plan \<noteq> []" and len: "k = length (butlast plan)" by auto
  from repair_loop_accept_or_shrink [OF ne, of hub t0 w meeting latest fa n]
  show ?case
  proof (elim disjE exE conjE)
    fix items loc t w1 d w2
    assume "repair_loop plan hub t0 latest meeting fa n w =
              (\<lparr>route = items @
                   [\<lparr>itype = transport, start_time = t, end_time = t + d,
                     item_location = meeting, item_details = Duration_min d\<rparr>],
                 final_arrival_time = Some (t + d), walks = Suc n\<rparr>, w2)"
    then show ?thesis using Suc.hyps(2) by simp
  next
    fix fa' w'
    assume eq: "repair_loop plan hub t0 latest meeting fa n w =
            repair_loop (butlast plan) hub t0 latest meeting fa' (Suc n) w'"
    have "walks (fst (repair_loop (butlast plan) hub t0 latest meeting fa' (Suc n) w'))
            \<le> Suc n + length (butlast plan)"
      using Suc.hyps(1) [OF len] .
    then show ?thesis using eq Suc.hyps(2) len by simp
  qed
qed

lemma repair_loop_iteration:
  assumes "plan \<noteq> []"
  shows "(forward_walk plan hub t0 [] w = (None, w1) \<longrightarrow>
            repair_loop plan hub t0 latest meeting fa n w =
            repair_loop (butlast plan) hub t0 latest meeting fa (Suc n) w1) \<and>
         (forward_walk plan hub t0 [] w = (Some (items, loc, t), w1) \<and>
          get_amap_driving_time loc meeting w1 = (None, w2) \<longrightarrow>
            repair_loop plan hub t0 latest meeting fa n w =
            repair_loop (butlast plan) hub t0 latest meeting fa (Suc n) w2) \<and>
         (forward_walk plan hub t0 [] w = (Some (items, loc, t), w1) \<and>
          get_amap_driving_time loc meeting w1 = (Some d, w2) \<and> \<not> t + d \<le> latest \<longrightarrow>
            repair_loop plan hub t0 latest meeting fa n w =
            repair_loop (butlast plan) hub t0 latest meeting (Some (t + d)) (Suc n) w2) \<and>
         (forward_walk plan hub t0 [] w = (Some (items, loc, t), w1) \<and>
          get_amap_driving_time loc meeting w1 = (Some d, w2) \<and> t + d \<le> latest \<longrightarrow>
            repair_loop plan hub t0 latest meeting fa n w =
              (\<lparr>route = items @
                   [\<lparr>itype = transport, start_time = t, end_time = t + d,
                     item_location = meeting, item_details = Duration_min d\<rparr>],
                 final_arrival_time = Some (t + d), walks = Suc n\<rparr>, w2))"
  using assms
  by (subst (1 2 3 4) repair_loop.simps) (simp add: Let_def)

lemma pre_meeting_plan_no_error:
  "pre_meeting_plan orc state w = Inr (u, w') \<Longrightarrow> selected_transport state \<noteq> None \<Longrightarrow>
   update_error_message u = None"
  unfolding pre_meeting_plan_def no_visits_def Let_def
  by (auto split: option.splits prod.splits if_splits sum.splits)

text \<open>
  Claim C2. Started on a list of \<open>n\<close> planned visits, the repair loop is total and begins
  at most \<open>n + 1\<close> forward walks. On the empty list it returns the empty route without a
  walk. On a non-empty list one iteration does exactly one of two things. If the walk
  completes, the final commute is found and the final arrival is no later than the
  deadline, the loop stops there and returns the route just walked. In every other case
  (a hop fails, the final commute fails, or the arrival is later than the deadline) it
  continues on the list without its last element, which is strictly shorter. The loop ends
  with the empty route or with a final arrival no later than the deadline, and
  \<^verbatim>\<open>pre_meeting_plan\<close> reports no error for either outcome.
\<close>

theorem repair_loop_walk_bound:
  "walks (fst (repair_loop plan hub t0 latest meeting None 0 w)) \<le> length plan + 1 \<and>
   (plan \<noteq> [] \<longrightarrow>
      (\<exists>r w'. repair_loop plan hub t0 latest meeting fa n w = (r, w') \<and>
            walks r = Suc n \<and> route r \<noteq> [] \<and>
            (\<exists>t. final_arrival_time r = Some t \<and> t \<le> latest)) \<or>
      (\<exists>fa' w'. length (butlast plan) < length plan \<and>
            repair_loop plan hub t0 latest meeting fa n w =
            repair_loop (butlast plan) hub t0 latest meeting fa' (Suc n) w')) \<and>
   (route (fst (repair_loop plan hub t0 latest meeting None 0 w)) = [] \<or>
    (\<exists>t. final_arrival_time (fst (repair_loop plan hub t0 latest meeting None 0 w)) = Some t \<and>
        t \<le> latest)) \<and>
   (\<forall>orc state w0 u w'.
      pre_meeting_plan orc state w0 = Inr (u, w') \<and> selected_transport state \<noteq> None \<longrightarrow>
      update_error_message u = None) \<and>
   repair_loop [] hub t0 latest meeting fa n w =
     (\<lparr>route = [], final_arrival_time = fa, walks = n\<rparr>, w) \<and>
   (plan \<noteq> [] \<and> forward_walk plan hub t0 [] w = (Some (items, loc, t), w1) \<and>
    get_amap_driving_time loc meeting w1 = (Some d, w2) \<and> t + d \<le> latest \<longrightarrow>
      repair_loop plan hub t0 latest meeting fa n w =
        (\<lparr>route = items @
             [\<lparr>itype = transport, start_time = t, end_time = t + d,
               item_location = meeting, item_details = Duration_min d\<rparr>],
           final_arrival_time = Some (t + d), walks = Suc n\<rparr>, w2)) \<and>
   (plan \<noteq> [] \<and> forward_walk plan hub t0 [] w = (Some (items, loc, t), w1) \<and>
    get_amap_driving_time loc meeting w1 = (Some d, w2) \<and> \<not> t + d \<le> latest \<longrightarrow>
      repair_loop plan hub t0 latest meeting fa n w =
      repair_loop (butlast plan) hub t0 latest meeting (Some (t + d)) (Suc n) w2) \<and>
   (plan \<noteq> [] \<and> forward_walk plan hub t0 [] w = (Some (items, loc, t), w1) \<and>
    get_amap_driving_time loc meeting w1 = (None, w2) \<longrightarrow>
      repair_loop plan hub t0 latest meeting fa n w =
      repair_loop (butlast plan) hub t0 latest meeting fa (Suc n) w2) \<and>
   (plan \<noteq> [] \<and> forward_walk plan hub t0 [] w = (None, w1) \<longrightarrow>
      repair_loop plan hub t0 latest meeting fa n w =
      repair_loop (butlast plan) hub t0 latest meeting fa (Suc n) w1)"
proof -
  have bound: "walks (fst (repair_loop plan hub t0 latest meeting None 0 w)) \<le> length plan + 1"
    using repair_loop_walks_le [of plan hub t0 latest meeting None 0 w] by simp
  have step: "plan \<noteq> [] \<longrightarrow>
      (\<exists>r w'. repair_loop plan hub t0 latest meeting fa n w = (r, w') \<and>
            walks r = Suc n \<and> route r \<noteq> [] \<and>
            (\<exists>t. final_arrival_time r = Some t \<and> t \<le> latest)) \<or>
      (\<exists>fa' w'. length (butlast plan) < length plan \<and>
            repair_loop plan hub t0 latest meeting fa n w =
            repair_loop (butlast plan) hub t0 latest meeting fa' (Suc n) w')"
  proof
    assume ne: "plan \<noteq> []"
    then have "length (butlast plan) < length plan" by simp
    then show "(\<exists>r w'. repair_loop plan hub t0 latest meeting fa n w = (r, w') \<and>
            walks r = Suc n \<and> route r \<noteq> [] \<and>
            (\<exists>t. final_arrival_time r = Some t \<and> t \<le> latest)) \<or>
      (\<exists>fa' w'. length (butlast plan) < length plan \<and>
            repair_loop plan hub t0 latest meeting fa n w =
            repair_loop (butlast plan) hub t0 latest meeting fa' (Suc n) w')"
      using repair_loop_accept_or_shrink [OF ne, of hub t0 w meeting latest fa n]
      by (elim disjE exE conjE) (simp, blast)
  qed
  have outcome: "route (fst (repair_loop plan hub t0 latest meeting None 0 w)) = [] \<or>
    (\<exists>t. final_arrival_time (fst (repair_loop plan hub t0 latest meeting None 0 w)) = Some t \<and>
        t \<le> latest)"
    using repair_loop_route [of plan hub t0 latest meeting None 0 w] by blast
  have no_error: "\<forall>orc state w0 u w'.
      pre_meeting_plan orc state w0 = Inr (u, w') \<and> selected_transport state \<noteq> None \<longrightarrow>
      update_error_message u = None"
    using pre_meeting_plan_no_error by blast
  have empty: "repair_loop [] hub t0 latest meeting fa n w =
     (\<lparr>route = [], final_arrival_time = fa, walks = n\<rparr>, w)"
    by (rule repair_loop_Nil)
  have iteration: "plan \<noteq> [] \<Longrightarrow>
         (forward_walk plan hub t0 [] w = (None, w1) \<longrightarrow>
            repair_loop plan hub t0 latest meeting fa n w =
            repair_loop (butlast plan) hub t0 latest meeting fa (Suc n) w1) \<and>
         (forward_walk plan hub t0 [] w = (Some (items, loc, t), w1) \<and>
          get_amap_driving_time loc meeting w1 = (None, w2) \<longrightarrow>
            repair_loop plan hub t0 latest meeting fa n w =
            repair_loop (butlast plan) hub t0 latest meeting fa (Suc n) w2) \<and>
         (forward_walk plan hub t0 [] w = (Some (items, loc, t), w1) \<and>
          get_amap_driving_time loc meeting w1 = (Some d, w2) \<and> \<not> t + d \<le> latest \<longrightarrow>
            repair_loop plan hub t0 latest meeting fa n w =
            repair_loop (butlast plan) hub t0 latest meeting (Some (t + d)) (Suc n) w2) \<and>
         (forward_walk plan hub t0 [] w = (Some (items, loc, t), w1) \<and>
          get_amap_driving_time loc meeting w1 = (Some d, w2) \<and> t + d \<le> latest \<longrightarrow>
            repair_loop plan hub t0 latest meeting fa n w =
              (\<lparr>route = items @
                   [\<lparr>itype = transport, start_time = t, end_time = t + d,
                     item_location = meeting, item_details = Duration_min d\<rparr>],
                 final_arrival_time = Some (t + d), walks = Suc n\<rparr>, w2))"
    by (rule repair_loop_iteration)
  show ?thesis
    using bound step outcome no_error empty iteration by blast
qed

lemma example_forward_walk:
  "forward_walk example_plan (place ''hub'' 1) 0 [] (limited_world 0 20) =
     (Some (butlast example_route, place ''B'' 3, 130), (limited_world 0 20)\<lparr>requests := 2\<rparr>)"
  by (simp add: world_eval retry_unfold example_eval Let_def)

lemma example_final_commute:
  "get_amap_driving_time (place ''B'' 3) (place ''venue'' 9)
     ((limited_world 0 20)\<lparr>requests := 2\<rparr>) =
     (Some 20, (limited_world 0 20)\<lparr>requests := 3\<rparr>)"
  by (simp add: world_eval retry_unfold)

lemma example_repair_tight:
  "repair_loop example_plan (place ''hub'' 1) 0 100 (place ''venue'' 9) None 0
     (limited_world 0 20) =
   (\<lparr>route = [transit_segment 0 20 (place ''A'' 2), visit_segment 20 ''A'' (place ''A'' 2),
              transit_segment 65 20 (place ''venue'' 9)],
     final_arrival_time = Some 85, walks = 2\<rparr>,
    (limited_world 0 20)\<lparr>requests := 5\<rparr>)"
  by (simp add: repair_loop.simps world_eval retry_unfold example_eval Let_def)

theorem repair_loop_walk_bound_witness:
  "example_plan \<noteq> [] \<and>
   forward_walk example_plan (place ''hub'' 1) 0 [] (limited_world 0 20) =
     (Some (butlast example_route, place ''B'' 3, 130),
      (limited_world 0 20)\<lparr>requests := 2\<rparr>) \<and>
   get_amap_driving_time (place ''B'' 3) (place ''venue'' 9)
     ((limited_world 0 20)\<lparr>requests := 2\<rparr>) =
     (Some 20, (limited_world 0 20)\<lparr>requests := 3\<rparr>) \<and>
   (130 :: rat) + 20 \<le> 180 \<and>
   repair_loop example_plan (place ''hub'' 1) 0 180 (place ''venue'' 9) None 0
     (limited_world 0 20) =
     (\<lparr>route = butlast example_route @ [transit_segment 130 20 (place ''venue'' 9)],
       final_arrival_time = Some 150, walks = 1\<rparr>,
      (limited_world 0 20)\<lparr>requests := 3\<rparr>) \<and>
   repair_loop example_plan (place ''hub'' 1) 0 100 (place ''venue'' 9) None 0
     (limited_world 0 20) =
     (\<lparr>route = [transit_segment 0 20 (place ''A'' 2), visit_segment 20 ''A'' (place ''A'' 2),
                transit_segment 65 20 (place ''venue'' 9)],
       final_arrival_time = Some 85, walks = 2\<rparr>,
      (limited_world 0 20)\<lparr>requests := 5\<rparr>) \<and>
   walks (fst (repair_loop example_plan (place ''hub'' 1) 0 100 (place ''venue'' 9) None 0
                 (limited_world 0 20))) \<le> length example_plan + 1"
proof -
  have ne: "example_plan \<noteq> []" by (simp add: example_plan_def)
  have le: "(130 :: rat) + 20 \<le> 180" by simp
  have accepted:
    "repair_loop example_plan (place ''hub'' 1) 0 180 (place ''venue'' 9) None 0
       (limited_world 0 20) =
     (\<lparr>route = butlast example_route @ [transit_segment 130 20 (place ''venue'' 9)],
       final_arrival_time = Some 150, walks = 1\<rparr>,
      (limited_world 0 20)\<lparr>requests := 3\<rparr>)"
    using repair_loop_walk_bound
            [where plan = example_plan and hub = "place ''hub'' 1" and ?t0.0 = 0
               and latest = 180 and meeting = "place ''venue'' 9"
               and w = "limited_world 0 20" and fa = None and n = 0
               and items = "butlast example_route" and loc = "place ''B'' 3" and t = 130
               and ?w1.0 = "(limited_world 0 20)\<lparr>requests := 2\<rparr>" and d = 20
               and ?w2.0 = "(limited_world 0 20)\<lparr>requests := 3\<rparr>"]
          ne example_forward_walk example_final_commute le
    by (simp add: transit_segment_def)
  have bounded:
    "walks (fst (repair_loop example_plan (place ''hub'' 1) 0 100 (place ''venue'' 9) None 0
                 (limited_world 0 20))) \<le> length example_plan + 1"
    using repair_loop_walk_bound
            [where plan = example_plan and hub = "place ''hub'' 1" and ?t0.0 = 0
               and latest = 100 and meeting = "place ''venue'' 9"
               and w = "limited_world 0 20"]
    by blast
  show ?thesis
    using ne le accepted bounded example_forward_walk example_final_commute
      example_repair_tight
    by blast
qed

text \<open>
  Claim C10. A non-empty route returned by the repair loop has at least three segments and
  an odd number of them; the segments at even positions are transit segments and those at
  odd positions are visits of 45 minutes; the first segment starts at the hub-arrival
  instant; every segment starts when its predecessor ends; the last segment is a transit
  segment whose end is the reported final arrival.
\<close>

theorem repair_loop_route_contiguous:
  assumes "repair_loop plan hub t0 latest meeting fa n w = (r, w')" and "route r \<noteq> []"
  shows "3 \<le> length (route r) \<and> odd (length (route r)) \<and>
         itype (hd (route r)) = transport \<and> start_time (hd (route r)) = t0 \<and>
         (\<forall>i < length (route r).
            (even i \<longrightarrow> itype (route r ! i) = transport) \<and>
            (odd i \<longrightarrow> itype (route r ! i) = company_visit \<and>
               end_time (route r ! i) = start_time (route r ! i) + 45)) \<and>
         (\<forall>i. Suc i < length (route r) \<longrightarrow>
            start_time (route r ! Suc i) = end_time (route r ! i)) \<and>
         itype (last (route r)) = transport \<and>
         final_arrival_time r = Some (end_time (last (route r)))"
proof -
  have r: "r = fst (repair_loop plan hub t0 latest meeting fa n w)" using assms(1) by simp
  from repair_loop_route [of plan hub t0 latest meeting fa n w] assms(2) obtain t where
    t: "final_arrival_time r = Some t" "itinerary_shape t0 (route r) t" "3 \<le> length (route r)"
    unfolding r by blast
  from itinerary_shape_elementary [OF t(2)] t(1,3) show ?thesis
    by (simp add: COMPANY_VISIT_DURATION_MINUTES_def)
qed

lemma example_repair:
  "repair_loop example_plan (place ''hub'' 1) 0 180 (place ''venue'' 9) None 0
     (limited_world 0 20) =
   (\<lparr>route = example_route, final_arrival_time = Some 150, walks = 1\<rparr>,
    (limited_world 0 20)\<lparr>requests := 3\<rparr>)"
  by (simp add: repair_loop.simps world_eval retry_unfold example_eval Let_def)

theorem repair_loop_route_contiguous_witness:
  "repair_loop example_plan (place ''hub'' 1) 0 180 (place ''venue'' 9) None 0
     (limited_world 0 20) =
   (\<lparr>route = example_route, final_arrival_time = Some 150, walks = 1\<rparr>,
    (limited_world 0 20)\<lparr>requests := 3\<rparr>) \<and>
   example_route \<noteq> [] \<and> length example_route = 5 \<and>
   start_time (hd example_route) = 0 \<and> itype (last example_route) = transport \<and>
   end_time (last example_route) = 150"
proof -
  have h1: "repair_loop example_plan (place ''hub'' 1) 0 180 (place ''venue'' 9) None 0
     (limited_world 0 20) =
   (\<lparr>route = example_route, final_arrival_time = Some 150, walks = 1\<rparr>,
    (limited_world 0 20)\<lparr>requests := 3\<rparr>)"
    by (rule example_repair)
  have h2: "route \<lparr>route = example_route, final_arrival_time = Some 150, walks = 1\<rparr> \<noteq> []"
    by (simp add: example_route_def)
  have len: "length example_route = 5" and ne: "example_route \<noteq> []"
    by (simp_all add: example_route_def)
  from repair_loop_route_contiguous [OF h1 h2] h1 len ne show ?thesis by simp
qed

section \<open>From the directory to the tentative plan\<close>

lemma filter_loop_fresh:
  "filter_loop center mx es w = (cs, w') \<Longrightarrow>
   \<forall>c \<in> set cs. S_attract c = None \<and> S_feas c = None \<and> S_final c = None \<and>
                  T_prev_to_i c = None"
proof (induction es arbitrary: w cs w')
  case Nil
  then show ?case by simp
next
  case (Cons e es)
  then show ?case
    by (auto split: option.splits prod.splits if_splits simp: Let_def)
qed

lemma eligibility_loop_admitted:
  "eligibility_loop hub meeting av cs w = (pool, w') \<Longrightarrow>
   \<forall>c \<in> set pool. \<exists>c0 \<in> set cs. \<exists>h m wa wb wc.
      get_amap_driving_time hub (location c0) wa = (Some h, wb) \<and>
      get_amap_driving_time (location c0) meeting wb = (Some m, wc) \<and>
      h + COMPANY_VISIT_DURATION_MINUTES + m \<le> av \<and>
      c = c0\<lparr>T_hub_to_i := Some h, T_i_to_meeting := Some m, T_total_trip := Some (h + m),
             T_buffer := Some (av - (h + COMPANY_VISIT_DURATION_MINUTES + m))\<rparr>"
proof (induction cs arbitrary: w pool w')
  case Nil
  then show ?case by simp
next
  case (Cons c cs)
  obtain hl w1 where h: "get_amap_driving_time hub (location c) w = (hl, w1)"
    by (cases "get_amap_driving_time hub (location c) w")
  obtain ml w2 where m: "get_amap_driving_time (location c) meeting w1 = (ml, w2)"
    by (cases "get_amap_driving_time (location c) meeting w1")
  obtain rest w3 where r: "eligibility_loop hub meeting av cs w2 = (rest, w3)"
    by (cases "eligibility_loop hub meeting av cs w2")
  note IH = Cons.IH [OF r]
  show ?case
  proof (cases "\<exists>hv mv. hl = Some hv \<and> ml = Some mv \<and>
                  hv + COMPANY_VISIT_DURATION_MINUTES + mv \<le> av")
    case True
    then obtain hv mv where v: "hl = Some hv" "ml = Some mv"
      "hv + COMPANY_VISIT_DURATION_MINUTES + mv \<le> av" by blast
    have pool: "pool = c\<lparr>T_hub_to_i := Some hv, T_i_to_meeting := Some mv,
                   T_total_trip := Some (hv + mv),
                   T_buffer := Some (av - (hv + COMPANY_VISIT_DURATION_MINUTES + mv))\<rparr> # rest"
      using Cons.prems h m r v by (simp add: Let_def)
    show ?thesis
      unfolding pool using IH h m v by (auto intro!: exI)
  next
    case False
    then have "pool = rest"
      using Cons.prems h m r by (auto simp: Let_def split: option.splits if_splits)
    then show ?thesis using IH by auto
  qed
qed


lemma original_companies_map_SomeD:
  "original_companies_map pool n = Some c \<Longrightarrow> c \<in> set pool \<and> name c = n"
  unfolding original_companies_map_def
  by (auto dest!: map_of_SomeD)

lemma merge_loop_merged:
  "merge_loop original scored = Inr merged \<Longrightarrow>
   \<forall>c \<in> set merged. \<exists>s \<in> set scored. \<exists>c0 a f.
      si_name s = Some (name c) \<and> original (name c) = Some c0 \<and>
      c = c0\<lparr>name := name c, S_attract := Some (Num a), S_feas := Some (Num f)\<rparr> \<and>
      (case si_S_attract s of Some v \<Rightarrow> Some v | None \<Rightarrow> S_attract c0) = Some (Num a) \<and>
      (case si_S_feas s of Some v \<Rightarrow> Some v | None \<Rightarrow> S_feas c0) = Some (Num f)"
proof (induction scored arbitrary: merged)
  case Nil
  then show ?case by simp
next
  case (Cons s scored)
  show ?case
  proof (cases "\<exists>rest. merge_loop original scored = Inr rest \<and> merged = rest")
    case True
    then show ?thesis using Cons.IH by auto
  next
    case False
    with Cons.prems obtain n c0 a f rest where
      s: "si_name s = Some n" "original n = Some c0"
         "(case si_S_attract s of Some v \<Rightarrow> Some v | None \<Rightarrow> S_attract c0) = Some (Num a)"
         "(case si_S_feas s of Some v \<Rightarrow> Some v | None \<Rightarrow> S_feas c0) = Some (Num f)"
         "merge_loop original scored = Inr rest"
         "merged = c0\<lparr>name := n, S_attract := Some (Num a), S_feas := Some (Num f)\<rparr> # rest"
      by (auto simp: Let_def split: option.splits pyval.splits sum.splits)
    show ?thesis
      unfolding s(6) using s(1-4) Cons.IH [OF s(5)] by auto
  qed
qed

lemma greedy_subset:
  "greedy cs itin t rem = Inr plan \<Longrightarrow>
   \<forall>v \<in> set plan. v \<in> set itin \<or>
      (\<exists>c \<in> set cs. vi_name v = name c \<and> vi_location v = location c)"
proof (induction cs arbitrary: itin t rem)
  case Nil
  then show ?case by simp
next
  case (Cons c cs)
  show ?case
  proof (cases "plan = itin")
    case True
    then show ?thesis by simp
  next
    case False
    with Cons.prems obtain d where
      "greedy cs (itin @ [\<lparr>vi_name = name c, vi_start_time = t + d,
                 vi_end_time = t + d + COMPANY_VISIT_DURATION_MINUTES,
                 vi_location = location c\<rparr>])
         (t + d + COMPANY_VISIT_DURATION_MINUTES)
         (rem - (d + COMPANY_VISIT_DURATION_MINUTES)) = Inr plan"
      by (auto simp: Let_def split: option.splits if_splits)
    from Cons.IH [OF this] show ?thesis by auto
  qed
qed

lemma calculate_final_score_keeps:
  "name (snd (calculate_final_score c av)) = name c \<and>
   location (snd (calculate_final_score c av)) = location c \<and>
   T_hub_to_i (snd (calculate_final_score c av)) = T_hub_to_i c \<and>
   T_i_to_meeting (snd (calculate_final_score c av)) = T_i_to_meeting c \<and>
   T_prev_to_i (snd (calculate_final_score c av)) = T_prev_to_i c"
  by (simp add: calculate_final_score_def Let_def split: option.splits pyval.splits)

lemma sorted_by_S_final_set:
  "sorted_by_S_final cs = Inr sorted_companies \<Longrightarrow>
   set sorted_companies = set cs \<and> (\<forall>c \<in> set cs. S_final c \<noteq> None)"
  by (auto simp: sorted_by_S_final_def split: if_splits)

lemma plan_multi_company_visit_subset:
  assumes "plan_multi_company_visit cs av t0 = Inr plan"
  shows "\<forall>v \<in> set plan. \<exists>c \<in> set cs. vi_name v = name c \<and> vi_location v = location c \<and>
            S_final (snd (calculate_final_score c av)) \<noteq> None"
proof -
  from assms obtain sorted_companies where
    srt: "sorted_by_S_final (map (\<lambda>c. snd (calculate_final_score c av)) cs) =
            Inr sorted_companies"
    and gr: "greedy sorted_companies [] t0 av = Inr plan"
    by (auto simp: plan_multi_company_visit_def split: sum.splits)
  from sorted_by_S_final_set [OF srt] have
    st: "set sorted_companies = (\<lambda>c. snd (calculate_final_score c av)) ` set cs"
    and fin: "\<forall>c \<in> set cs. S_final (snd (calculate_final_score c av)) \<noteq> None"
    by auto
  show ?thesis
  proof
    fix v assume "v \<in> set plan"
    with greedy_subset [OF gr] obtain c' where
      c': "c' \<in> set sorted_companies" "vi_name v = name c'" "vi_location v = location c'"
      by auto
    from c'(1) st obtain c where c: "c \<in> set cs" "c' = snd (calculate_final_score c av)"
      by auto
    show "\<exists>c \<in> set cs. vi_name v = name c \<and> vi_location v = location c \<and>
            S_final (snd (calculate_final_score c av)) \<noteq> None"
      using c c'(2,3) fin calculate_final_score_keeps [of c av] by auto
  qed
qed


lemma available_companies_admitted:
  assumes "available_companies orc state tr w = (pool, w2)"
  shows "\<forall>c \<in> set pool. \<exists>h m wa wb wc.
      get_amap_driving_time (tr_location tr) (location c) wa = (Some h, wb) \<and>
      get_amap_driving_time (location c) (meeting_location state) wb = (Some m, wc) \<and>
      h + COMPANY_VISIT_DURATION_MINUTES + m \<le> available_minutes state tr \<and>
      T_hub_to_i c = Some h \<and> T_i_to_meeting c = Some m \<and> T_total_trip c = Some (h + m) \<and>
      S_attract c = None \<and> S_feas c = None \<and> S_final c = None \<and> T_prev_to_i c = None"
proof -
  obtain first w1 where
    f: "filter_companies_by_area_by_time orc (tr_location tr)
          (py_int (arrival_commute_min tr * 2)) w = (first, w1)"
    by (cases "filter_companies_by_area_by_time orc (tr_location tr)
          (py_int (arrival_commute_min tr * 2)) w")
  then have fresh: "\<forall>c \<in> set first. S_attract c = None \<and> S_feas c = None \<and>
                      S_final c = None \<and> T_prev_to_i c = None"
    by (auto simp: filter_companies_by_area_by_time_def split: if_splits
             dest!: filter_loop_fresh)
  from assms f have
    e: "eligibility_loop (tr_location tr) (meeting_location state)
          (available_minutes state tr) first w1 = (pool, w2)"
    by (simp add: available_companies_def)
  show ?thesis
  proof
    fix c assume "c \<in> set pool"
    with eligibility_loop_admitted [OF e] obtain c0 h m wa wb wc where
      c0: "c0 \<in> set first"
        "get_amap_driving_time (tr_location tr) (location c0) wa = (Some h, wb)"
        "get_amap_driving_time (location c0) (meeting_location state) wb = (Some m, wc)"
        "h + COMPANY_VISIT_DURATION_MINUTES + m \<le> available_minutes state tr"
        "c = c0\<lparr>T_hub_to_i := Some h, T_i_to_meeting := Some m,
                  T_total_trip := Some (h + m),
                  T_buffer := Some (available_minutes state tr -
                                    (h + COMPANY_VISIT_DURATION_MINUTES + m))\<rparr>"
      by blast
    have "get_amap_driving_time (tr_location tr) (location c) wa = (Some h, wb)"
      "get_amap_driving_time (location c) (meeting_location state) wb = (Some m, wc)"
      using c0(2,3,5) by simp_all
    moreover have "T_hub_to_i c = Some h \<and> T_i_to_meeting c = Some m \<and>
       T_total_trip c = Some (h + m) \<and>
       S_attract c = None \<and> S_feas c = None \<and> S_final c = None \<and> T_prev_to_i c = None"
      using c0(1,5) fresh by simp
    ultimately show "\<exists>h m wa wb wc.
      get_amap_driving_time (tr_location tr) (location c) wa = (Some h, wb) \<and>
      get_amap_driving_time (location c) (meeting_location state) wb = (Some m, wc) \<and>
      h + COMPANY_VISIT_DURATION_MINUTES + m \<le> available_minutes state tr \<and>
      T_hub_to_i c = Some h \<and> T_i_to_meeting c = Some m \<and> T_total_trip c = Some (h + m) \<and>
      S_attract c = None \<and> S_feas c = None \<and> S_final c = None \<and> T_prev_to_i c = None"
      using c0(4) by blast
  qed
qed

lemma pre_meeting_plan_route_stages:
  assumes "pre_meeting_plan orc state w = Inr (u, w')" and "pre_meeting_route u \<noteq> []"
  shows "\<exists>tr pool w2 merged plan r.
           selected_transport state = Some tr \<and>
           available_companies orc state tr w = (pool, w2) \<and>
           merge_loop (original_companies_map pool)
             (get_company_scores_by_llm orc pool (available_minutes state tr)) = Inr merged \<and>
           plan_multi_company_visit merged (available_minutes state tr) (tr_end_time tr) =
             Inr plan \<and>
           repair_loop plan (tr_location tr) (tr_end_time tr) (latest_arrival_needed state)
             (meeting_location state) None 0 w2 = (r, w') \<and>
           pre_meeting_route u = route r \<and>
           final_arrival_at_venue u =
             Some (case final_arrival_time r of
                     None \<Rightarrow> tr_end_time tr + arrival_commute_min tr | Some t \<Rightarrow> t)"
  using assms
  unfolding pre_meeting_plan_def no_visits_def Let_def
  by (auto split: option.splits prod.splits if_splits sum.splits)


lemma merged_from_pool:
  assumes pool: "available_companies orc state tr w = (pool, w2)"
    and merged: "merge_loop (original_companies_map pool) scored = Inr merged"
    and c: "c \<in> set merged"
  shows "\<exists>c0 \<in> set pool. \<exists>s \<in> set scored. \<exists>h m a f.
           name c0 = name c \<and> location c0 = location c \<and>
           si_name s = Some (name c) \<and>
           si_S_attract s = Some (Num a) \<and> si_S_feas s = Some (Num f) \<and>
           S_attract c = Some (Num a) \<and> S_feas c = Some (Num f) \<and>
           T_hub_to_i c0 = Some h \<and> T_i_to_meeting c0 = Some m \<and>
           T_hub_to_i c = Some h \<and> T_i_to_meeting c = Some m \<and>
           T_total_trip c = Some (h + m) \<and> S_final c = None \<and>
           h + COMPANY_VISIT_DURATION_MINUTES + m \<le> available_minutes state tr"
proof -
  from merge_loop_merged [OF merged] c obtain s c0 a f where
    s: "s \<in> set scored" "si_name s = Some (name c)"
       "original_companies_map pool (name c) = Some c0"
       "c = c0\<lparr>name := name c, S_attract := Some (Num a), S_feas := Some (Num f)\<rparr>"
       "(case si_S_attract s of Some v \<Rightarrow> Some v | None \<Rightarrow> S_attract c0) = Some (Num a)"
       "(case si_S_feas s of Some v \<Rightarrow> Some v | None \<Rightarrow> S_feas c0) = Some (Num f)"
    by blast
  from original_companies_map_SomeD [OF s(3)] have c0: "c0 \<in> set pool" "name c0 = name c"
    by auto
  from available_companies_admitted [OF pool] c0(1) obtain h m where
    hm: "h + COMPANY_VISIT_DURATION_MINUTES + m \<le> available_minutes state tr"
        "T_hub_to_i c0 = Some h" "T_i_to_meeting c0 = Some m" "T_total_trip c0 = Some (h + m)"
        "S_attract c0 = None" "S_feas c0 = None" "S_final c0 = None"
    by blast
  have sa: "si_S_attract s = Some (Num a)" using s(5) hm(5) by (simp split: option.splits)
  have sf: "si_S_feas s = Some (Num f)" using s(6) hm(6) by (simp split: option.splits)
  have fields: "location c0 = location c" "S_attract c = Some (Num a)"
    "S_feas c = Some (Num f)" "T_hub_to_i c = Some h" "T_i_to_meeting c = Some m"
    "T_total_trip c = Some (h + m)" "S_final c = None"
    by (subst s(4), simp add: hm)+
  show ?thesis
    using c0 s(1,2) sa sf fields hm(1,2,3) by blast
qed

text \<open>
  Claim C1. Whenever \<^verbatim>\<open>pre_meeting_plan\<close> returns a non-empty route, the reported final
  arrival is the end of the route's last segment and is no later than the meeting start
  minus the 30-minute buffer; and every visit of the route is the visit of a candidate of
  the pool \<^verbatim>\<open>available_companies\<close>, whose two legs recorded at admission satisfy
  \<open>T_hub_to_i + 45 + T_i_to_meeting \<le> available_minutes\<close>.
\<close>

theorem pre_meeting_plan_feasible:
  assumes "pre_meeting_plan orc state w = Inr (u, w')" and "pre_meeting_route u \<noteq> []"
  shows "\<exists>tr. selected_transport state = Some tr \<and>
           (\<exists>t. final_arrival_at_venue u = Some t \<and>
                t = end_time (last (pre_meeting_route u)) \<and>
                t \<le> meeting_start_dt state - 30) \<and>
           (\<forall>x \<in> set (pre_meeting_route u). itype x = company_visit \<longrightarrow>
              (\<exists>c \<in> set (fst (available_companies orc state tr w)). \<exists>h m.
                  item_details x = Company_name (name c) \<and> item_location x = location c \<and>
                  T_hub_to_i c = Some h \<and> T_i_to_meeting c = Some m \<and>
                  h + 45 + m \<le> meeting_start_dt state - 30 - tr_end_time tr))"
proof -
  from pre_meeting_plan_route_stages [OF assms] obtain tr pool w2 merged plan r where
    st: "selected_transport state = Some tr"
        "available_companies orc state tr w = (pool, w2)"
        "merge_loop (original_companies_map pool)
           (get_company_scores_by_llm orc pool (available_minutes state tr)) = Inr merged"
        "plan_multi_company_visit merged (available_minutes state tr) (tr_end_time tr) =
           Inr plan"
        "repair_loop plan (tr_location tr) (tr_end_time tr) (latest_arrival_needed state)
           (meeting_location state) None 0 w2 = (r, w')"
        "pre_meeting_route u = route r"
        "final_arrival_at_venue u =
           Some (case final_arrival_time r of
                   None \<Rightarrow> tr_end_time tr + arrival_commute_min tr | Some t \<Rightarrow> t)"
    by blast
  have r: "r = fst (repair_loop plan (tr_location tr) (tr_end_time tr)
                 (latest_arrival_needed state) (meeting_location state) None 0 w2)"
    using st(5) by simp
  have ne: "route r \<noteq> []" using assms(2) st(6) by simp
  from repair_loop_route [of plan "tr_location tr" "tr_end_time tr"
      "latest_arrival_needed state" "meeting_location state" None 0 w2] ne
  obtain t where
    t: "final_arrival_time r = Some t" "t \<le> latest_arrival_needed state"
       "itinerary_shape (tr_end_time tr) (route r) t"
       "\<forall>x \<in> set (route r). itype x = company_visit \<longrightarrow>
           (\<exists>v \<in> set plan. item_location x = vi_location v \<and>
               item_details x = Company_name (vi_name v))"
    unfolding r by blast
  have last: "end_time (last (route r)) = t"
    using itinerary_shape_elementary [OF t(3)] by simp
  have arrival: "\<exists>t. final_arrival_at_venue u = Some t \<and>
                t = end_time (last (pre_meeting_route u)) \<and>
                t \<le> meeting_start_dt state - 30"
    using st(6,7) t(1,2) last
    by (simp add: latest_arrival_needed_def POST_ARRIVAL_BUFFER_MINUTES_def)
  have visits: "\<forall>x \<in> set (pre_meeting_route u). itype x = company_visit \<longrightarrow>
              (\<exists>c \<in> set (fst (available_companies orc state tr w)). \<exists>h m.
                  item_details x = Company_name (name c) \<and> item_location x = location c \<and>
                  T_hub_to_i c = Some h \<and> T_i_to_meeting c = Some m \<and>
                  h + 45 + m \<le> meeting_start_dt state - 30 - tr_end_time tr)"
  proof (intro ballI impI)
    fix x assume "x \<in> set (pre_meeting_route u)" and "itype x = company_visit"
    with t(4) st(6) obtain v where
      v: "v \<in> set plan" "item_location x = vi_location v"
         "item_details x = Company_name (vi_name v)"
      by auto
    from plan_multi_company_visit_subset [OF st(4)] v(1) obtain c where
      c: "c \<in> set merged" "vi_name v = name c" "vi_location v = location c"
      by blast
    from merged_from_pool [OF st(2,3) c(1)] obtain c0 h m where
      c0: "c0 \<in> set pool" "name c0 = name c" "location c0 = location c"
          "T_hub_to_i c0 = Some h" "T_i_to_meeting c0 = Some m"
          "h + COMPANY_VISIT_DURATION_MINUTES + m \<le> available_minutes state tr"
      by blast
    have "h + 45 + m \<le> meeting_start_dt state - 30 - tr_end_time tr"
      using c0(6)
      by (simp add: available_minutes_def latest_arrival_needed_def
            POST_ARRIVAL_BUFFER_MINUTES_def COMPANY_VISIT_DURATION_MINUTES_def)
    moreover have "c0 \<in> set (fst (available_companies orc state tr w))"
      using c0(1) st(2) by simp
    moreover have "item_details x = Company_name (name c0)" "item_location x = location c0"
      using c0(2,3) v(2,3) c(2,3) by simp_all
    ultimately show "\<exists>c \<in> set (fst (available_companies orc state tr w)). \<exists>h m.
                  item_details x = Company_name (name c) \<and> item_location x = location c \<and>
                  T_hub_to_i c = Some h \<and> T_i_to_meeting c = Some m \<and>
                  h + 45 + m \<le> meeting_start_dt state - 30 - tr_end_time tr"
      using c0(4,5) by blast
  qed
  show ?thesis using st(1) arrival visits by blast
qed

lemma example_pre_meeting_plan:
  "pre_meeting_plan (example_oracles ''G1'') example_state (limited_world 0 20) =
     Inr (example_update, (limited_world 0 20)\<lparr>requests := 12\<rparr>)"
  by (simp add: pre_meeting_plan_def available_companies_def
        filter_companies_by_area_by_time_def py_int_def
        available_minutes_def latest_arrival_needed_def original_companies_map_def
        plan_multi_company_visit_def sorted_by_S_final_def calculate_final_score_def
        alpha_def beta_def gamma_def delta_def repair_loop.simps no_visits_def
        world_eval retry_unfold example_eval Let_def)

theorem pre_meeting_plan_feasible_witness:
  "pre_meeting_plan (example_oracles ''G1'') example_state (limited_world 0 20) =
     Inr (example_update, (limited_world 0 20)\<lparr>requests := 12\<rparr>) \<and>
   pre_meeting_route example_update \<noteq> [] \<and>
   (\<exists>t. final_arrival_at_venue example_update = Some t \<and>
        t = end_time (last (pre_meeting_route example_update)) \<and>
        t \<le> meeting_start_dt example_state - 30)"
proof -
  have h1: "pre_meeting_plan (example_oracles ''G1'') example_state (limited_world 0 20) =
     Inr (example_update, (limited_world 0 20)\<lparr>requests := 12\<rparr>)"
    by (rule example_pre_meeting_plan)
  have h2: "pre_meeting_route example_update \<noteq> []"
    by (simp add: example_update_def example_route_def)
  from pre_meeting_plan_feasible [OF h1 h2] h1 h2 show ?thesis by blast
qed

section \<open>Scores are assigned to complete candidates only\<close>

lemma calculate_final_score_incomplete:
  "\<not> ((\<exists>a. S_attract c = Some (Num a)) \<and> (\<exists>f. S_feas c = Some (Num f)) \<and>
       (\<exists>t. T_total_trip c = Some t)) \<Longrightarrow>
   calculate_final_score c av = (- 999, c)"
  by (auto simp: calculate_final_score_def split: option.splits pyval.splits)

lemma calculate_final_score_complete:
  "S_attract c = Some (Num a) \<Longrightarrow> S_feas c = Some (Num f) \<Longrightarrow> T_total_trip c = Some t \<Longrightarrow>
   S_final (snd (calculate_final_score c av)) =
     Some (0.5 * a + 0.3 * f - 0.1 * t + 0.05 * (av - t - 45))"
  by (simp add: calculate_final_score_def alpha_def beta_def gamma_def delta_def
        COMPANY_VISIT_DURATION_MINUTES_def Let_def)

lemma plan_multi_company_visit_unscored:
  assumes "c \<in> set cs" and "S_final c = None"
    and "\<not> ((\<exists>a. S_attract c = Some (Num a)) \<and> (\<exists>f. S_feas c = Some (Num f)) \<and>
            (\<exists>t. T_total_trip c = Some t))"
  shows "plan_multi_company_visit cs av t0 = Inl KeyError"
proof -
  have "snd (calculate_final_score c av) = c"
    using calculate_final_score_incomplete [OF assms(3)] by simp
  then have "\<exists>c' \<in> set (map (\<lambda>c. snd (calculate_final_score c av)) cs). S_final c' = None"
    using assms(1,2) by force
  then show ?thesis
    by (simp add: plan_multi_company_visit_def sorted_by_S_final_def)
qed

text \<open>
  What holds when the merge step and the sequencer both return: every candidate handed to
  ranking has both legs resolved and both judgments numeric, the judgments coming from an
  object of the oracle's answer that bears its name, and its \<^verbatim>\<open>S_final\<close> is the weighted
  formula; every planned visit is the visit of such a candidate; a candidate of the pool for
  which the oracle returned no object with two numeric judgments is in no planned visit;
  and a list holding a candidate without \<^verbatim>\<open>S_final\<close> and without complete inputs is not
  ranked at all, the sort raising \<^verbatim>\<open>KeyError\<close>.
\<close>

lemma ranked_candidates_complete:
  assumes pool: "available_companies orc state tr w = (pool, w2)"
    and merged: "merge_loop (original_companies_map pool) scored = Inr merged"
    and plan: "plan_multi_company_visit merged av t0 = Inr plan"
  shows "(\<forall>c \<in> set merged. \<exists>h m a f.
            T_hub_to_i c = Some h \<and> T_i_to_meeting c = Some m \<and>
            S_attract c = Some (Num a) \<and> S_feas c = Some (Num f) \<and>
            (\<exists>s \<in> set scored. si_name s = Some (name c) \<and>
                si_S_attract s = Some (Num a) \<and> si_S_feas s = Some (Num f)) \<and>
            S_final (snd (calculate_final_score c av)) =
              Some (0.5 * a + 0.3 * f - 0.1 * (h + m) + 0.05 * (av - (h + m) - 45))) \<and>
         (\<forall>v \<in> set plan. \<exists>c \<in> set merged. vi_name v = name c \<and> vi_location v = location c) \<and>
         (\<forall>c \<in> set pool.
            \<not> (\<exists>s \<in> set scored. si_name s = Some (name c) \<and>
                  (\<exists>a. si_S_attract s = Some (Num a)) \<and> (\<exists>f. si_S_feas s = Some (Num f))) \<longrightarrow>
            name c \<notin> vi_name ` set plan) \<and>
         (\<forall>cs. (\<exists>c \<in> set cs. S_final c = None \<and>
                  \<not> ((\<exists>a. S_attract c = Some (Num a)) \<and> (\<exists>f. S_feas c = Some (Num f)) \<and>
                      (\<exists>t. T_total_trip c = Some t))) \<longrightarrow>
               plan_multi_company_visit cs av t0 = Inl KeyError)"
proof (intro conjI)
  show "\<forall>c \<in> set merged. \<exists>h m a f.
            T_hub_to_i c = Some h \<and> T_i_to_meeting c = Some m \<and>
            S_attract c = Some (Num a) \<and> S_feas c = Some (Num f) \<and>
            (\<exists>s \<in> set scored. si_name s = Some (name c) \<and>
                si_S_attract s = Some (Num a) \<and> si_S_feas s = Some (Num f)) \<and>
            S_final (snd (calculate_final_score c av)) =
              Some (0.5 * a + 0.3 * f - 0.1 * (h + m) + 0.05 * (av - (h + m) - 45))"
  proof
    fix c assume "c \<in> set merged"
    from merged_from_pool [OF pool merged this] obtain s h m a f where
      f: "s \<in> set scored" "si_name s = Some (name c)" "si_S_attract s = Some (Num a)"
         "si_S_feas s = Some (Num f)" "S_attract c = Some (Num a)" "S_feas c = Some (Num f)"
         "T_hub_to_i c = Some h" "T_i_to_meeting c = Some m" "T_total_trip c = Some (h + m)"
      by blast
    from calculate_final_score_complete [OF f(5,6,9), of av] f
    show "\<exists>h m a f.
            T_hub_to_i c = Some h \<and> T_i_to_meeting c = Some m \<and>
            S_attract c = Some (Num a) \<and> S_feas c = Some (Num f) \<and>
            (\<exists>s \<in> set scored. si_name s = Some (name c) \<and>
                si_S_attract s = Some (Num a) \<and> si_S_feas s = Some (Num f)) \<and>
            S_final (snd (calculate_final_score c av)) =
              Some (0.5 * a + 0.3 * f - 0.1 * (h + m) + 0.05 * (av - (h + m) - 45))"
      by blast
  qed
next
  show sub: "\<forall>v \<in> set plan. \<exists>c \<in> set merged. vi_name v = name c \<and> vi_location v = location c"
    using plan_multi_company_visit_subset [OF plan] by blast
  show "\<forall>c \<in> set pool.
            \<not> (\<exists>s \<in> set scored. si_name s = Some (name c) \<and>
                  (\<exists>a. si_S_attract s = Some (Num a)) \<and> (\<exists>f. si_S_feas s = Some (Num f))) \<longrightarrow>
            name c \<notin> vi_name ` set plan"
  proof (intro ballI impI notI)
    fix c assume c: "c \<in> set pool"
      and no: "\<not> (\<exists>s \<in> set scored. si_name s = Some (name c) \<and>
                  (\<exists>a. si_S_attract s = Some (Num a)) \<and> (\<exists>f. si_S_feas s = Some (Num f)))"
      and "name c \<in> vi_name ` set plan"
    then obtain v where v: "v \<in> set plan" "vi_name v = name c" by auto
    with sub obtain c' where c': "c' \<in> set merged" "name c' = name c" by force
    from merged_from_pool [OF pool merged c'(1)] obtain s a f where
      "s \<in> set scored" "si_name s = Some (name c')" "si_S_attract s = Some (Num a)"
      "si_S_feas s = Some (Num f)"
      by blast
    with no c'(2) show False by auto
  qed
next
  show "\<forall>cs. (\<exists>c \<in> set cs. S_final c = None \<and>
                  \<not> ((\<exists>a. S_attract c = Some (Num a)) \<and> (\<exists>f. S_feas c = Some (Num f)) \<and>
                      (\<exists>t. T_total_trip c = Some t))) \<longrightarrow>
               plan_multi_company_visit cs av t0 = Inl KeyError"
    using plan_multi_company_visit_unscored by blast
qed

lemma example_available_companies:
  "available_companies incomplete_oracles example_state example_transport
     (limited_world 0 20) = (example_pool, (limited_world 0 20)\<lparr>requests := 9\<rparr>)"
  by (simp add: available_companies_def filter_companies_by_area_by_time_def py_int_def
        available_minutes_def latest_arrival_needed_def world_eval retry_unfold
        example_eval Let_def)

text \<open>
  Claim C8 at an answer of the value-judgment oracle whose object for B has no
  \<^verbatim>\<open>S_feas\<close> key, the three candidates A, B, C being in the pool with both legs
  resolved: the merge step raises \<^verbatim>\<open>KeyError\<close>, which its \<^verbatim>\<open>except\<close> clause does not
  catch, and \<^verbatim>\<open>pre_meeting_plan\<close> ends with that exception. B is not skipped, and A and
  C, whose judgments are complete, are not ranked either.
\<close>

theorem missing_score_key_aborts_planning:
  "available_companies incomplete_oracles example_state example_transport
     (limited_world 0 20) = (example_pool, (limited_world 0 20)\<lparr>requests := 9\<rparr>) \<and>
   get_company_scores_by_llm incomplete_oracles example_pool 180 = incomplete_scores \<and>
   si_S_feas (incomplete_scores ! 1) = None \<and>
   merge_loop (original_companies_map example_pool) incomplete_scores = Inl KeyError \<and>
   pre_meeting_plan incomplete_oracles example_state (limited_world 0 20) = Inl KeyError"
proof -
  have merge: "merge_loop (original_companies_map example_pool) incomplete_scores =
                 Inl KeyError"
    by (simp add: original_companies_map_def example_eval Let_def)
  have run: "pre_meeting_plan incomplete_oracles example_state (limited_world 0 20) =
               Inl KeyError"
    by (simp add: pre_meeting_plan_def available_companies_def
          filter_companies_by_area_by_time_def py_int_def
          available_minutes_def latest_arrival_needed_def original_companies_map_def
          world_eval retry_unfold example_eval Let_def)
  have answer: "get_company_scores_by_llm incomplete_oracles example_pool 180 =
                  incomplete_scores"
    by (simp add: incomplete_oracles_def)
  have key: "si_S_feas (incomplete_scores ! 1) = None"
    by (simp add: incomplete_scores_def)
  show ?thesis using example_available_companies answer key merge run by blast
qed

section \<open>The order of the sequencer\<close>









section \<open>Hop times of the greedy pass\<close>

text \<open>
  Claim C5 on the scenario of the spec (window 180, candidates A, B, C): B is accepted
  first; A, accepted second, starts its visit at \<open>55 + 20\<close>, where 20 is A's own
  hub-to-candidate time. \<^verbatim>\<open>plan_multi_company_visit\<close> takes no routing service, so no
  travel time from B to A is asked for.
\<close>

theorem second_hop_is_hub_leg:
  "plan_multi_company_visit [company_A, company_B, company_C] 180 0 =
     Inr [planned_visit company_B 10,
          planned_visit company_A (10 + 45 + the (T_hub_to_i company_A))] \<and>
   T_hub_to_i company_A = Some 20"
  by (simp add: plan_multi_company_visit_def sorted_by_S_final_def calculate_final_score_def
        alpha_def beta_def gamma_def delta_def truthy_def example_eval Let_def)

section \<open>The geometric filter and an unresolved center\<close>

text \<open>
  Claim C7 at a center with a city and no coordinates: with the key configured, the routing
  client answers its fallback of 35 minutes without a request, and with
  \<open>max_driving_minutes = 45\<close> the filter admits all three directory entries, each annotated
  with a drive time of 35.
\<close>

theorem unresolved_center_admits_entries:
  "lat ((place ''hub'' 1)\<lparr>lat := None, lon := None\<rparr>) = None \<and>
   map (\<lambda>c. (name c, driving_time_min c))
     (fst (filter_companies_by_area_by_time (example_oracles ''G1'')
             ((place ''hub'' 1)\<lparr>lat := None, lon := None\<rparr>) 45 (limited_world 0 20))) =
     [(''A'', Some 35), (''B'', Some 35), (''C'', Some 35)] \<and>
   requests (snd (filter_companies_by_area_by_time (example_oracles ''G1'')
             ((place ''hub'' 1)\<lparr>lat := None, lon := None\<rparr>) 45 (limited_world 0 20))) = 0"
  by (simp add: filter_companies_by_area_by_time_def world_eval example_eval Let_def)

section \<open>A transit choice that names no offer\<close>

lemma names_no_offer_None:
  "names_no_offer offers raw \<Longrightarrow> llm_choose_transport offers raw = None"
  by (cases raw) (auto simp: names_no_offer_def llm_choose_transport_def find_None_iff)

text \<open>
  Claim C6. In a run whose state holds no \<^verbatim>\<open>selected_option_raw\<close> yet, if the answer of
  the transit-choice oracle names no offer of the original list by both id and type, then
  \<^verbatim>\<open>llm_choose_transport\<close> yields no offer, the node \<^verbatim>\<open>select_transport_by_llm\<close> leaves
  \<^verbatim>\<open>selected_option_raw\<close> empty and writes an error message, and the conditional edge
  \<^verbatim>\<open>decide_after_llm_select\<close> ends the run instead of entering
  \<^verbatim>\<open>calculate_final_transport\<close>.
\<close>

theorem mismatched_choice_ends_run:
  assumes "selected_option_raw state = None"
    and "\<forall>ref_option h a w2.
           reference_commutes orc state ref_option w = Inr (h, a, w2) \<longrightarrow>
           names_no_offer (transport_options state)
             (transit_chooser orc (transport_options state) h a)"
  shows "selected_option_raw (fst (select_transport_by_llm orc state w)) = None \<and>
         error_message (fst (select_transport_by_llm orc state w)) \<noteq> None \<and>
         decide_after_llm_select (fst (select_transport_by_llm orc state w)) = N_end \<and>
         (\<forall>ref_option h a w2.
            reference_commutes orc state ref_option w = Inr (h, a, w2) \<longrightarrow>
            llm_choose_transport (transport_options state)
              (transit_chooser orc (transport_options state) h a) = None)"
proof -
  have none: "\<forall>ref_option h a w2.
            reference_commutes orc state ref_option w = Inr (h, a, w2) \<longrightarrow>
            llm_choose_transport (transport_options state)
              (transit_chooser orc (transport_options state) h a) = None"
    using assms(2) names_no_offer_None by blast
  have "selected_option_raw (fst (select_transport_by_llm orc state w)) = None \<and>
        error_message (fst (select_transport_by_llm orc state w)) \<noteq> None"
  proof (cases "transport_options state")
    case Nil
    then show ?thesis using assms(1) by (simp add: select_transport_by_llm_def)
  next
    case (Cons ref_option rest)
    show ?thesis
    proof (cases "reference_commutes orc state ref_option w")
      case (Inl msg)
      then show ?thesis using Cons assms(1) by (simp add: select_transport_by_llm_def)
    next
      case (Inr triple)
      then obtain h a w2 where
        rc: "reference_commutes orc state ref_option w = Inr (h, a, w2)"
        by (cases triple) auto
      with none have "llm_choose_transport (transport_options state)
              (transit_chooser orc (transport_options state) h a) = None"
        by blast
      then show ?thesis
        using Cons rc assms(1) by (simp add: select_transport_by_llm_def)
    qed
  qed
  then show ?thesis using none by (simp add: decide_after_llm_select_def)
qed

lemma example_reference_commutes:
  "reference_commutes (example_oracles ''G9'') example_state ref_option (limited_world 0 20) =
     Inr (20, 20, (limited_world 0 20)\<lparr>requests := 2\<rparr>)"
  by (simp add: reference_commutes_def hub_location_def world_eval retry_unfold example_eval)

theorem mismatched_choice_ends_run_witness:
  "selected_option_raw example_state = None \<and>
   reference_commutes (example_oracles ''G9'') example_state (train ''G1'')
     (limited_world 0 20) = Inr (20, 20, (limited_world 0 20)\<lparr>requests := 2\<rparr>) \<and>
   names_no_offer (transport_options example_state)
     (transit_chooser (example_oracles ''G9'') (transport_options example_state) 20 20) \<and>
   selected_option_raw
     (fst (select_transport_by_llm (example_oracles ''G9'') example_state
             (limited_world 0 20))) = None \<and>
   error_message
     (fst (select_transport_by_llm (example_oracles ''G9'') example_state
             (limited_world 0 20))) \<noteq> None \<and>
   decide_after_llm_select
     (fst (select_transport_by_llm (example_oracles ''G9'') example_state
             (limited_world 0 20))) = N_end"
proof -
  have h1: "selected_option_raw example_state = None" by (simp add: example_state_def)
  have no: "names_no_offer (transport_options example_state)
     (transit_chooser (example_oracles ''G9'') (transport_options example_state) h a)" for h a
    by (simp add: names_no_offer_def transport_options_def example_eval)
  then have h2: "\<forall>ref_option h a w2.
           reference_commutes (example_oracles ''G9'') example_state ref_option
             (limited_world 0 20) = Inr (h, a, w2) \<longrightarrow>
           names_no_offer (transport_options example_state)
             (transit_chooser (example_oracles ''G9'') (transport_options example_state) h a)"
    by blast
  from mismatched_choice_ends_run [OF h1 h2] h1 no [of 20 20]
    example_reference_commutes [of "train ''G1''"]
  show ?thesis by blast
qed

end
